theory Spec2Isabelle
  imports Main "HOL-Library.Multiset" "HOL-Library.Option_ord" "HOL-Library.Product_Lexorder"
begin

section \<open>Hospital management backend: the handlers of \<open>backend/app.py\<close>\<close>

text \<open>
  The handlers of \<open>app.py\<close> are embedded as functions from a request and a world (the six
  tables, the number of open connections and the list of statements executed so far) to
  a response and the world afterwards. A Python exception is a value of \<open>exn\<close>; the
  \<open>try ... except Exception\<close> around every handler body is \<open>try_except\<close>. The
  body of a request is what \<open>request.get_json()\<close> makes of it: a dict, a value that is
  not a dict, or an exception.

  The database server and the Python libraries are not part of the repository. What
  they compute is taken as a parameter (the record \<open>env\<close>): how a date prints, how a
  decimal becomes a float, what \<open>bcrypt.checkpw\<close> answers, how the server compares
  text and how it converts a bound parameter to the type of a column. \<open>get_conn\<close> is
  assumed to reach the server; the statements that fail are those whose parameters the
  server cannot convert.
\<close>

subsection \<open>JSON values and Python exceptions\<close>

datatype 'f json =
    JNull
  | JBool bool
  | JInt int
  | JFloat 'f
  | JStr string
  | JArr "'f json list"
  | JObj "(string \<times> 'f json) list"

datatype exn =
    ValueError string
  | TypeError
  | AttributeError
  | OverflowError
  | HTTPException
  | StoreError

text \<open>A response: the HTTP status and the JSON body handed to \<open>jsonify\<close>.\<close>

type_synonym 'f response = "nat \<times> 'f json"

definition failure :: "string \<Rightarrow> 'f json" where
  "failure msg = JObj [(''success'', JBool False), (''message'', JStr msg)]"

subsection \<open>Python's \<open>int()\<close>\<close>

text \<open>
  \<open>int(s)\<close> on a string: surrounding whitespace is stripped, one sign is allowed,
  then decimal digits, with single underscores allowed between digits. Strings are
  lists of code points below 256. The whitespace that \<open>int()\<close> strips in that range
  is tab, line feed, vertical tab, form feed, carriage return and space, and the
  two characters \<open>0x85\<close> and \<open>0xA0\<close>; the separators \<open>0x1C\<close> to \<open>0x1F\<close>, for which
  \<open>str.isspace\<close> is true, are not stripped. A text with more than 4300 digits is
  refused (the limit of the interpreter on the conversion of a string to an integer,
  which counts leading zeros and counts neither the sign nor the underscores).
\<close>

definition py_isspace :: "char \<Rightarrow> bool" where
  "py_isspace c = (c \<in> set [CHR 0x09, CHR 0x0A, CHR 0x0B, CHR 0x0C, CHR 0x0D,
     CHR 0x20, CHR 0x85, CHR 0xA0])"

definition py_strip :: "string \<Rightarrow> string" where
  "py_strip s = rev (dropWhile py_isspace (rev (dropWhile py_isspace s)))"

definition digit_of :: "char \<Rightarrow> nat option" where
  "digit_of c = (let n = of_char c :: nat in if 48 \<le> n \<and> n \<le> 57 then Some (n - 48) else None)"

fun digits_from :: "nat \<Rightarrow> string \<Rightarrow> nat option" where
  "digits_from acc [] = Some acc"
| "digits_from acc [c] =
     (case digit_of c of None \<Rightarrow> None | Some v \<Rightarrow> Some (10 * acc + v))"
| "digits_from acc (c # d # ds) =
     (if c = CHR ''_'' then
        (case digit_of d of None \<Rightarrow> None | Some v \<Rightarrow> digits_from (10 * acc + v) ds)
      else
        (case digit_of c of None \<Rightarrow> None | Some v \<Rightarrow> digits_from (10 * acc + v) (d # ds)))"

definition unsigned_literal :: "string \<Rightarrow> nat option" where
  "unsigned_literal s =
     (case s of [] \<Rightarrow> None
      | c # cs \<Rightarrow> (case digit_of c of None \<Rightarrow> None | Some v \<Rightarrow> digits_from v cs))"

definition int_literal :: "string \<Rightarrow> int option" where
  "int_literal s =
     (case py_strip s of
        [] \<Rightarrow> None
      | c # cs \<Rightarrow>
          if 4300 < length (filter (\<lambda>c. digit_of c \<noteq> None) s) then None
          else if c = CHR ''-'' then map_option (\<lambda>n. - int n) (unsigned_literal cs)
          else if c = CHR ''+'' then map_option int (unsigned_literal cs)
          else map_option int (unsigned_literal (c # cs)))"

text \<open>
  \<open>int(x)\<close> on a value decoded from JSON or taken from the query string. \<open>None\<close>,
  lists and dicts raise \<open>TypeError\<close>; a float is truncated by the interpreter
  (\<open>float_int\<close>, which raises on infinities and NaN).
\<close>

fun py_int :: "('f \<Rightarrow> exn + int) \<Rightarrow> 'f json \<Rightarrow> exn + int" where
  "py_int fi (JInt n) = Inr n"
| "py_int fi (JBool b) = Inr (if b then 1 else 0)"
| "py_int fi (JFloat x) = fi x"
| "py_int fi (JStr s) = (case int_literal s of None \<Rightarrow> Inl (ValueError s) | Some n \<Rightarrow> Inr n)"
| "py_int fi JNull = Inl TypeError"
| "py_int fi (JArr xs) = Inl TypeError"
| "py_int fi (JObj kvs) = Inl TypeError"

subsection \<open>What the interpreter, the libraries and the server compute\<close>

text \<open>
  \<open>exn_str\<close> is \<open>str(e)\<close> of an exception.
  \<open>date_str\<close> is \<open>str()\<close> of a date or datetime, \<open>dec_float\<close> is \<open>float()\<close> of a
  \<open>Decimal\<close>, \<open>float_int\<close> is \<open>int()\<close> of a float and \<open>checkpw\<close> is
  \<open>bcrypt.checkpw\<close> on the encoded password and hash. \<open>text_eq\<close> is the server's
  \<open>=\<close> on text under the collation of the column. \<open>key_of\<close>, \<open>date_of\<close> and
  \<open>text_of\<close> convert a bound parameter that is not \<open>NULL\<close> to an integer key, a
  datetime and a text; \<open>None\<close> means that the server rejects the parameter and
  \<open>execute\<close> raises.
\<close>

record ('d, 'm, 'f) env =
  exn_str :: "exn \<Rightarrow> string"
  date_str :: "'d \<Rightarrow> string"
  dec_float :: "'m \<Rightarrow> 'f"
  float_int :: "'f \<Rightarrow> exn + int"
  checkpw :: "string \<Rightarrow> string \<Rightarrow> exn + bool"
  text_eq :: "string \<Rightarrow> string \<Rightarrow> bool"
  key_of :: "'f json \<Rightarrow> int option"
  date_of :: "'f json \<Rightarrow> 'd option"
  text_of :: "'f json \<Rightarrow> string option"

text \<open>
  The body of the \<open>except Exception as e\<close> branch of every handler:
  \<open>jsonify({"success": False, "message": f"Server Error: {e}"}), 500\<close>.
\<close>

definition server_error :: "('d, 'm, 'f) env \<Rightarrow> exn \<Rightarrow> 'f response" where
  "server_error E e = (500, failure (''Server Error: '' @ exn_str E e))"

subsection \<open>The tables\<close>

text \<open>Nullable columns are options; \<open>None\<close> is \<open>NULL\<close>.\<close>

record 'd patient =
  p_patient_id :: int
  p_name :: "string option"
  p_date_of_birth :: "'d option"
  p_gender :: "string option"
  p_address :: "string option"
  p_phone :: "string option"

record doctor =
  d_doctor_id :: int
  d_name :: "string option"
  d_specialty :: "string option"
  d_phone :: "string option"
  d_email :: "string option"

record 'd appointment =
  a_appointment_id :: int
  a_patient_id :: "int option"
  a_doctor_id :: "int option"
  a_appointment_date :: "'d option"
  a_reason :: "string option"

record treatment =
  t_treatment_id :: int
  t_appointment_id :: "int option"
  t_diagnosis :: "string option"
  t_prescription :: "string option"
  t_notes :: "string option"

record ('d, 'm) bill =
  b_bill_id :: int
  b_patient_id :: "int option"
  b_treatment_id :: "int option"
  b_amount :: "'m option"
  b_payment_status :: "string option"
  b_billing_date :: "'d option"

record app_user =
  u_username :: string
  u_password_hash :: "string option"
  u_full_name :: "string option"
  u_role :: "string option"

datatype stmt = Select | Insert | Update | Delete | Commit

text \<open>
  The world of a handler: the tables, the next identity value of \<open>dbo.Appointment\<close>,
  what \<open>SCOPE_IDENTITY()\<close> returns on the current connection, the number of
  connections that are open, and the statements executed so far.
\<close>

record ('d, 'm) world =
  patients :: "'d patient list"
  doctors :: "doctor list"
  appointments :: "'d appointment list"
  treatments :: "treatment list"
  billing :: "('d, 'm) bill list"
  users :: "app_user list"
  next_identity :: int
  scope_identity :: "int option"
  open_conns :: nat
  trace :: "stmt list"

subsection \<open>Statements that may raise\<close>

type_synonym ('a, 'w) act = "'w \<Rightarrow> (exn + 'a) \<times> 'w"

definition ret :: "'a \<Rightarrow> ('a, 'w) act" where
  "ret x = (\<lambda>w. (Inr x, w))"

definition lift :: "exn + 'a \<Rightarrow> ('a, 'w) act" where
  "lift r = (\<lambda>w. (r, w))"

definition bnd :: "('a, 'w) act \<Rightarrow> ('a \<Rightarrow> ('b, 'w) act) \<Rightarrow> ('b, 'w) act" where
  "bnd m f = (\<lambda>w. case m w of (Inl e, w') \<Rightarrow> (Inl e, w') | (Inr a, w') \<Rightarrow> f a w')"

text \<open>\<open>try: ... except Exception as e: return handler(e)\<close>; the world is as the exception left it.\<close>

definition try_except :: "('r, 'w) act \<Rightarrow> (exn \<Rightarrow> 'r) \<Rightarrow> 'w \<Rightarrow> 'r \<times> 'w" where
  "try_except m h = (\<lambda>w. case m w of (Inl e, w') \<Rightarrow> (h e, w') | (Inr r, w') \<Rightarrow> (r, w'))"

definition get_conn :: "(unit, ('d, 'm) world) act" where
  "get_conn = (\<lambda>w. (Inr (), w\<lparr>open_conns := open_conns w + 1, scope_identity := None\<rparr>))"

definition conn_close :: "(unit, ('d, 'm) world) act" where
  "conn_close = (\<lambda>w. (Inr (), w\<lparr>open_conns := open_conns w - 1\<rparr>))"

definition executed :: "stmt \<Rightarrow> ('d, 'm) world \<Rightarrow> ('d, 'm) world" where
  "executed s w = w\<lparr>trace := trace w @ [s]\<rparr>"

definition conn_commit :: "(unit, ('d, 'm) world) act" where
  "conn_commit = (\<lambda>w. (Inr (), executed Commit w))"

subsection \<open>Binding a parameter to a column\<close>

definition bind_key :: "('d, 'm, 'f) env \<Rightarrow> 'f json \<Rightarrow> exn + int option" where
  "bind_key E v =
     (case v of
        JNull \<Rightarrow> Inr None
      | JInt n \<Rightarrow> Inr (Some n)
      | JBool b \<Rightarrow> Inr (Some (if b then 1 else 0))
      | _ \<Rightarrow> (case key_of E v of None \<Rightarrow> Inl StoreError | Some n \<Rightarrow> Inr (Some n)))"

definition bind_date :: "('d, 'm, 'f) env \<Rightarrow> 'f json \<Rightarrow> exn + 'd option" where
  "bind_date E v =
     (case v of
        JNull \<Rightarrow> Inr None
      | _ \<Rightarrow> (case date_of E v of None \<Rightarrow> Inl StoreError | Some d \<Rightarrow> Inr (Some d)))"

definition bind_text :: "('d, 'm, 'f) env \<Rightarrow> 'f json \<Rightarrow> exn + string option" where
  "bind_text E v =
     (case v of
        JNull \<Rightarrow> Inr None
      | JStr s \<Rightarrow> Inr (Some s)
      | _ \<Rightarrow> (case text_of E v of None \<Rightarrow> Inl StoreError | Some s \<Rightarrow> Inr (Some s)))"

subsection \<open>WHERE clauses with positional parameters\<close>

text \<open>
  A list of clauses joined by \<open>AND\<close>, each with one \<open>?\<close>: the server binds the
  parameters to the placeholders from left to right and rejects the statement when
  their numbers differ or a parameter cannot be converted.
\<close>

fun eval_where ::
  "('c \<Rightarrow> 'f json \<Rightarrow> exn + ('r \<Rightarrow> bool)) \<Rightarrow> 'c list \<Rightarrow> 'f json list \<Rightarrow> exn + ('r \<Rightarrow> bool)" where
  "eval_where sem [] [] = Inr (\<lambda>r. True)"
| "eval_where sem (c # cs) (p # ps) =
     (case sem c p of
        Inl e \<Rightarrow> Inl e
      | Inr f \<Rightarrow> (case eval_where sem cs ps of
                   Inl e \<Rightarrow> Inl e
                 | Inr g \<Rightarrow> Inr (\<lambda>r. f r \<and> g r)))"
| "eval_where sem [] (p # ps) = Inl StoreError"
| "eval_where sem (c # cs) [] = Inl StoreError"

text \<open>Comparisons with \<open>NULL\<close> on either side select no row.\<close>

definition key_eq :: "('d, 'm, 'f) env \<Rightarrow> ('r \<Rightarrow> int option) \<Rightarrow> 'f json \<Rightarrow> exn + ('r \<Rightarrow> bool)" where
  "key_eq E col p =
     (case bind_key E p of
        Inl e \<Rightarrow> Inl e
      | Inr None \<Rightarrow> Inr (\<lambda>r. False)
      | Inr (Some n) \<Rightarrow> Inr (\<lambda>r. col r = Some n))"

definition text_eq_pred ::
  "('d, 'm, 'f) env \<Rightarrow> ('r \<Rightarrow> string option) \<Rightarrow> 'f json \<Rightarrow> exn + ('r \<Rightarrow> bool)" where
  "text_eq_pred E col p =
     (case bind_text E p of
        Inl e \<Rightarrow> Inl e
      | Inr None \<Rightarrow> Inr (\<lambda>r. False)
      | Inr (Some s) \<Rightarrow> Inr (\<lambda>r. case col r of None \<Rightarrow> False | Some t \<Rightarrow> text_eq E t s))"

definition date_ge ::
  "('d::linorder, 'm, 'f) env \<Rightarrow> ('r \<Rightarrow> 'd option) \<Rightarrow> 'f json \<Rightarrow> exn + ('r \<Rightarrow> bool)" where
  "date_ge E col p =
     (case bind_date E p of
        Inl e \<Rightarrow> Inl e
      | Inr None \<Rightarrow> Inr (\<lambda>r. False)
      | Inr (Some d) \<Rightarrow> Inr (\<lambda>r. case col r of None \<Rightarrow> False | Some x \<Rightarrow> d \<le> x))"

definition date_le ::
  "('d::linorder, 'm, 'f) env \<Rightarrow> ('r \<Rightarrow> 'd option) \<Rightarrow> 'f json \<Rightarrow> exn + ('r \<Rightarrow> bool)" where
  "date_le E col p =
     (case bind_date E p of
        Inl e \<Rightarrow> Inl e
      | Inr None \<Rightarrow> Inr (\<lambda>r. False)
      | Inr (Some d) \<Rightarrow> Inr (\<lambda>r. case col r of None \<Rightarrow> False | Some x \<Rightarrow> x \<le> d))"

text \<open>
  \<open>ORDER BY k DESC\<close>. \<open>NULL\<close> is the lowest value, as \<open>None\<close> is in the order of
  options. The server leaves the order of rows with equal keys open; here it is fixed.
\<close>

definition order_desc :: "('r \<Rightarrow> 'k::linorder) \<Rightarrow> 'r list \<Rightarrow> 'r list" where
  "order_desc k rows = rev (sort_key k rows)"

subsection \<open>The queries of the list endpoints\<close>

datatype appt_clause =
    A_patient_id_eq
  | A_doctor_id_eq
  | A_appointment_date_ge
  | A_appointment_date_le

fun appt_clause_sql :: "appt_clause \<Rightarrow> string" where
  "appt_clause_sql A_patient_id_eq = ''a.patient_id = ?''"
| "appt_clause_sql A_doctor_id_eq = ''a.doctor_id = ?''"
| "appt_clause_sql A_appointment_date_ge = ''a.appointment_date >= ?''"
| "appt_clause_sql A_appointment_date_le = ''a.appointment_date <= ?''"

datatype treat_clause = T_appointment_id_eq

fun treat_clause_sql :: "treat_clause \<Rightarrow> string" where
  "treat_clause_sql T_appointment_id_eq = ''t.appointment_id = ?''"

datatype bill_clause = B_patient_id_eq | B_payment_status_eq

fun bill_clause_sql :: "bill_clause \<Rightarrow> string" where
  "bill_clause_sql B_patient_id_eq = ''b.patient_id = ?''"
| "bill_clause_sql B_payment_status_eq = ''b.payment_status = ?''"

text \<open>
  \<open>FROM dbo.Appointment a JOIN dbo.Patient p ON p.patient_id = a.patient_id
  JOIN dbo.Doctor d ON d.doctor_id = a.doctor_id\<close>
\<close>

definition appt_join ::
  "('d, 'm) world \<Rightarrow> ('d appointment \<times> 'd patient \<times> doctor) list" where
  "appt_join w =
     [(a, p, d). a \<leftarrow> appointments w,
                 p \<leftarrow> patients w, a_patient_id a = Some (p_patient_id p),
                 d \<leftarrow> doctors w, a_doctor_id a = Some (d_doctor_id d)]"

text \<open>
  The selected columns, in the order of the \<open>SELECT\<close> list:
  \<open>a.appointment_id, a.appointment_date, a.reason, p.patient_id, p.name, d.doctor_id, d.name\<close>.
\<close>

record 'd appt_row =
  r_appointment_id :: int
  r_appointment_date :: "'d option"
  r_reason :: "string option"
  r_patient_id :: int
  r_patient_name :: "string option"
  r_doctor_id :: int
  r_doctor_name :: "string option"

definition appt_select :: "'d appointment \<times> 'd patient \<times> doctor \<Rightarrow> 'd appt_row" where
  "appt_select = (\<lambda>(a, p, d).
     \<lparr>r_appointment_id = a_appointment_id a,
      r_appointment_date = a_appointment_date a,
      r_reason = a_reason a,
      r_patient_id = p_patient_id p,
      r_patient_name = p_name p,
      r_doctor_id = d_doctor_id d,
      r_doctor_name = d_name d\<rparr>)"

fun appt_pred ::
  "('d::linorder, 'm, 'f) env \<Rightarrow> appt_clause \<Rightarrow> 'f json
     \<Rightarrow> exn + ('d appointment \<times> 'd patient \<times> doctor \<Rightarrow> bool)" where
  "appt_pred E A_patient_id_eq p = key_eq E (\<lambda>(a, _, _). a_patient_id a) p"
| "appt_pred E A_doctor_id_eq p = key_eq E (\<lambda>(a, _, _). a_doctor_id a) p"
| "appt_pred E A_appointment_date_ge p = date_ge E (\<lambda>(a, _, _). a_appointment_date a) p"
| "appt_pred E A_appointment_date_le p = date_le E (\<lambda>(a, _, _). a_appointment_date a) p"

definition appt_key :: "'d appointment \<times> 'd patient \<times> doctor \<Rightarrow> 'd option \<times> int" where
  "appt_key = (\<lambda>(a, _, _). (a_appointment_date a, a_appointment_id a))"

text \<open>\<open>... ORDER BY a.appointment_date DESC, a.appointment_id DESC\<close>, then \<open>fetchall()\<close>.\<close>

definition select_appointments ::
  "('d::linorder, 'm, 'f) env \<Rightarrow> appt_clause list \<Rightarrow> 'f json list
     \<Rightarrow> ('d appt_row list, ('d, 'm) world) act" where
  "select_appointments E wh params = (\<lambda>w.
     case eval_where (appt_pred E) wh params of
       Inl e \<Rightarrow> (Inl e, executed Select w)
     | Inr P \<Rightarrow> (Inr (map appt_select (order_desc appt_key (filter P (appt_join w)))),
                 executed Select w))"

fun treat_pred :: "('d, 'm, 'f) env \<Rightarrow> treat_clause \<Rightarrow> 'f json \<Rightarrow> exn + (treatment \<Rightarrow> bool)" where
  "treat_pred E T_appointment_id_eq p = key_eq E t_appointment_id p"

text \<open>\<open>FROM dbo.Treatment t {where} ORDER BY t.treatment_id DESC\<close>\<close>

definition select_treatments ::
  "('d, 'm, 'f) env \<Rightarrow> treat_clause list \<Rightarrow> 'f json list \<Rightarrow> (treatment list, ('d, 'm) world) act" where
  "select_treatments E wh params = (\<lambda>w.
     case eval_where (treat_pred E) wh params of
       Inl e \<Rightarrow> (Inl e, executed Select w)
     | Inr P \<Rightarrow> (Inr (order_desc t_treatment_id (filter P (treatments w))), executed Select w))"

text \<open>\<open>FROM dbo.Billing b JOIN dbo.Patient p ON p.patient_id = b.patient_id\<close>\<close>

definition bill_join :: "('d, 'm) world \<Rightarrow> (('d, 'm) bill \<times> 'd patient) list" where
  "bill_join w =
     [(b, p). b \<leftarrow> billing w, p \<leftarrow> patients w, b_patient_id b = Some (p_patient_id p)]"

fun bill_pred ::
  "('d, 'm, 'f) env \<Rightarrow> bill_clause \<Rightarrow> 'f json \<Rightarrow> exn + (('d, 'm) bill \<times> 'd patient \<Rightarrow> bool)" where
  "bill_pred E B_patient_id_eq p = key_eq E (\<lambda>(b, _). b_patient_id b) p"
| "bill_pred E B_payment_status_eq p = text_eq_pred E (\<lambda>(b, _). b_payment_status b) p"

definition bill_key :: "('d, 'm) bill \<times> 'd patient \<Rightarrow> 'd option \<times> int" where
  "bill_key = (\<lambda>(b, _). (b_billing_date b, b_bill_id b))"

text \<open>\<open>... ORDER BY b.billing_date DESC, b.bill_id DESC\<close>; the rows keep the bill and the patient.\<close>

definition select_billing ::
  "('d::linorder, 'm, 'f) env \<Rightarrow> bill_clause list \<Rightarrow> 'f json list
     \<Rightarrow> ((('d, 'm) bill \<times> 'd patient) list, ('d, 'm) world) act" where
  "select_billing E wh params = (\<lambda>w.
     case eval_where (bill_pred E) wh params of
       Inl e \<Rightarrow> (Inl e, executed Select w)
     | Inr P \<Rightarrow> (Inr (order_desc bill_key (filter P (bill_join w))), executed Select w))"

text \<open>\<open>SELECT ... FROM dbo.Patient ORDER BY patient_id\<close>\<close>

definition select_patients :: "('d patient list, ('d, 'm) world) act" where
  "select_patients = (\<lambda>w. (Inr (sort_key p_patient_id (patients w)), executed Select w))"

subsection \<open>Row mappers\<close>

text \<open>A column passed to \<open>jsonify\<close> as the driver returned it.\<close>

definition jtext :: "string option \<Rightarrow> 'f json" where
  "jtext c = (case c of None \<Rightarrow> JNull | Some s \<Rightarrow> JStr s)"

definition jint :: "int option \<Rightarrow> 'f json" where
  "jint c = (case c of None \<Rightarrow> JNull | Some n \<Rightarrow> JInt n)"

text \<open>\<open>str(x)\<close> of a date column: \<open>str(None)\<close> is the text \<open>None\<close>.\<close>

definition py_str :: "('d, 'm, 'f) env \<Rightarrow> 'd option \<Rightarrow> string" where
  "py_str E c = (case c of None \<Rightarrow> ''None'' | Some d \<Rightarrow> date_str E d)"

text \<open>
  The dict of \<open>get_patients\<close>. \<open>str(r[2]) if r[2] else None\<close>: a date object is
  always true, \<open>None\<close> is false.
\<close>

definition patient_row_to_json :: "('d, 'm, 'f) env \<Rightarrow> 'd patient \<Rightarrow> 'f json" where
  "patient_row_to_json E r = JObj
     [(''patient_id'', JInt (p_patient_id r)),
      (''name'', jtext (p_name r)),
      (''date_of_birth'',
         (case p_date_of_birth r of Some d \<Rightarrow> JStr (py_str E (Some d)) | None \<Rightarrow> JNull)),
      (''gender'', jtext (p_gender r)),
      (''address'', jtext (p_address r)),
      (''phone'', jtext (p_phone r))]"

text \<open>The dict of \<open>get_doctors\<close>; the row is \<open>doctor_id, name, specialty, phone, email\<close>.\<close>

definition doctor_row_to_json :: "doctor \<Rightarrow> 'f json" where
  "doctor_row_to_json r = JObj
     [(''doctor_id'', JInt (d_doctor_id r)),
      (''name'', jtext (d_name r)),
      (''specialty'', jtext (d_specialty r)),
      (''phone'', jtext (d_phone r)),
      (''email'', jtext (d_email r))]"

text \<open>\<open>_appointment_row_to_json\<close>, and the same dict in \<open>get_appointments\<close>.\<close>

definition appointment_row_to_json :: "('d, 'm, 'f) env \<Rightarrow> 'd appt_row \<Rightarrow> 'f json" where
  "appointment_row_to_json E r = JObj
     [(''appointment_id'', JInt (r_appointment_id r)),
      (''appointment_date'', JStr (py_str E (r_appointment_date r))),
      (''reason'', jtext (r_reason r)),
      (''patient_id'', JInt (r_patient_id r)),
      (''patient_name'', jtext (r_patient_name r)),
      (''doctor_id'', JInt (r_doctor_id r)),
      (''doctor_name'', jtext (r_doctor_name r))]"

text \<open>The dict of \<open>get_treatments\<close>.\<close>

definition treatment_row_to_json :: "treatment \<Rightarrow> 'f json" where
  "treatment_row_to_json r = JObj
     [(''treatment_id'', JInt (t_treatment_id r)),
      (''appointment_id'', jint (t_appointment_id r)),
      (''diagnosis'', jtext (t_diagnosis r)),
      (''prescription'', jtext (t_prescription r)),
      (''notes'', jtext (t_notes r))]"

text \<open>
  The dict of \<open>get_billing\<close>; the row is
  \<open>b.bill_id, b.patient_id, p.name, b.treatment_id, b.amount, b.payment_status, b.billing_date\<close>.
  \<open>float(r[4]) if r[4] is not None else None\<close>.
\<close>

definition billing_row_to_json ::
  "('d, 'm, 'f) env \<Rightarrow> ('d, 'm) bill \<times> 'd patient \<Rightarrow> 'f json" where
  "billing_row_to_json E = (\<lambda>(b, p). JObj
     [(''bill_id'', JInt (b_bill_id b)),
      (''patient_id'', jint (b_patient_id b)),
      (''patient_name'', jtext (p_name p)),
      (''treatment_id'', jint (b_treatment_id b)),
      (''amount'', (case b_amount b of Some m \<Rightarrow> JFloat (dec_float E m) | None \<Rightarrow> JNull)),
      (''payment_status'', jtext (b_payment_status b)),
      (''billing_date'', JStr (py_str E (b_billing_date b)))])"

subsection \<open>The list endpoints\<close>

text \<open>
  \<open>request.args\<close> maps a name to its text when the query string has it. The block
  \<open>if v: where.append(c); params.append(int(v))\<close> is \<open>int_filter\<close>, the block
  \<open>if v: where.append(c); params.append(v)\<close> is \<open>str_filter\<close>; an empty text is false.
\<close>

type_synonym args = "string \<rightharpoonup> string"

definition int_filter ::
  "('d, 'm, 'f) env \<Rightarrow> 'c \<Rightarrow> string option \<Rightarrow> 'c list \<times> 'f json list
     \<Rightarrow> exn + ('c list \<times> 'f json list)" where
  "int_filter E c v q =
     (case v of
        None \<Rightarrow> Inr q
      | Some s \<Rightarrow>
          if s = [] then Inr q
          else (case py_int (float_int E) (JStr s) of
                  Inl e \<Rightarrow> Inl e
                | Inr n \<Rightarrow> Inr (fst q @ [c], snd q @ [JInt n])))"

definition str_filter ::
  "'c \<Rightarrow> string option \<Rightarrow> 'c list \<times> 'f json list \<Rightarrow> 'c list \<times> 'f json list" where
  "str_filter c v q =
     (case v of
        None \<Rightarrow> q
      | Some s \<Rightarrow> if s = [] then q else (fst q @ [c], snd q @ [JStr s]))"

definition get_patients ::
  "('d, 'm, 'f) env \<Rightarrow> ('d, 'm) world \<Rightarrow> 'f response \<times> ('d, 'm) world" where
  "get_patients E =
     try_except
       (bnd get_conn (\<lambda>_.
        bnd select_patients (\<lambda>rows.
        bnd conn_close (\<lambda>_.
        ret (200, JArr (map (patient_row_to_json E) rows))))))
       (server_error E)"

definition get_appointments ::
  "('d::linorder, 'm, 'f) env \<Rightarrow> args \<Rightarrow> ('d, 'm) world \<Rightarrow> 'f response \<times> ('d, 'm) world" where
  "get_appointments E args =
     try_except
       (bnd (lift (int_filter E A_patient_id_eq (args ''patient_id'') ([], []))) (\<lambda>q1.
        bnd (lift (int_filter E A_doctor_id_eq (args ''doctor_id'') q1)) (\<lambda>q2.
        bnd (ret (str_filter A_appointment_date_ge (args ''from'') q2)) (\<lambda>q3.
        bnd (ret (str_filter A_appointment_date_le (args ''to'') q3)) (\<lambda>q4.
        bnd get_conn (\<lambda>_.
        bnd (select_appointments E (fst q4) (snd q4)) (\<lambda>rows.
        bnd conn_close (\<lambda>_.
        ret (200, JArr (map (appointment_row_to_json E) rows))))))))))
       (server_error E)"

definition get_treatments ::
  "('d, 'm, 'f) env \<Rightarrow> args \<Rightarrow> ('d, 'm) world \<Rightarrow> 'f response \<times> ('d, 'm) world" where
  "get_treatments E args =
     try_except
       (bnd (lift (int_filter E T_appointment_id_eq (args ''appointment_id'') ([], []))) (\<lambda>q.
        bnd get_conn (\<lambda>_.
        bnd (select_treatments E (fst q) (snd q)) (\<lambda>rows.
        bnd conn_close (\<lambda>_.
        ret (200, JArr (map treatment_row_to_json rows)))))))
       (server_error E)"

definition get_billing ::
  "('d::linorder, 'm, 'f) env \<Rightarrow> args \<Rightarrow> ('d, 'm) world \<Rightarrow> 'f response \<times> ('d, 'm) world" where
  "get_billing E args =
     try_except
       (bnd (lift (int_filter E B_patient_id_eq (args ''patient_id'') ([], []))) (\<lambda>q1.
        bnd (ret (str_filter B_payment_status_eq (args ''status'') q1)) (\<lambda>q2.
        bnd get_conn (\<lambda>_.
        bnd (select_billing E (fst q2) (snd q2)) (\<lambda>rows.
        bnd conn_close (\<lambda>_.
        ret (200, JArr (map (billing_row_to_json E) rows))))))))
       (server_error E)"

subsection \<open>Login\<close>

text \<open>
  A dict decoded from a JSON object. \<open>d.get(k)\<close> on a dict is \<open>None\<close> both for a
  missing key and for a key whose value is \<open>null\<close>.
\<close>

type_synonym 'f body = "string \<rightharpoonup> 'f json"

definition py_get :: "'f body \<Rightarrow> string \<Rightarrow> 'f json" where
  "py_get data k = (case data k of None \<Rightarrow> JNull | Some v \<Rightarrow> v)"

text \<open>
  What \<open>request.get_json()\<close> finds in a request. \<open>Dict d\<close>: the body is a JSON
  object, decoded to the dict \<open>d\<close>. \<open>NotDict\<close>: the body is another JSON value (a
  list, a string, a number, a boolean or \<open>null\<close>), decoded to a Python value that has
  no attribute \<open>get\<close>; a request without JSON for which Flask returns \<open>None\<close> is of
  this kind. \<open>NotJson\<close>: Flask raises (a body that is not JSON, or, from Flask 2.1 on,
  a request that does not announce JSON). \<open>data.get(k)\<close> is \<open>data_get\<close>.
\<close>

datatype 'f payload = Dict "'f body" | NotDict | NotJson

definition get_json :: "'f payload \<Rightarrow> exn + 'f payload" where
  "get_json request = (case request of NotJson \<Rightarrow> Inl HTTPException | _ \<Rightarrow> Inr request)"

definition data_get :: "'f payload \<Rightarrow> string \<Rightarrow> exn + 'f json" where
  "data_get data k = (case data of Dict d \<Rightarrow> Inr (py_get d k) | _ \<Rightarrow> Inl AttributeError)"





subsection \<open>Statements of the appointment endpoints\<close>

text \<open>\<open>SELECT COUNT(*) FROM ... WHERE id = ?\<close> and \<open>fetchone()[0]\<close>.\<close>

definition count_where ::
  "('d, 'm, 'f) env \<Rightarrow> ('r \<Rightarrow> int) \<Rightarrow> 'r list \<Rightarrow> 'f json \<Rightarrow> (nat, ('d, 'm) world) act" where
  "count_where E col rows p = (\<lambda>w.
     case key_eq E (\<lambda>r. Some (col r)) p of
       Inl e \<Rightarrow> (Inl e, executed Select w)
     | Inr P \<Rightarrow> (Inr (length (filter P rows)), executed Select w))"

definition count_patient :: "('d, 'm, 'f) env \<Rightarrow> 'f json \<Rightarrow> (nat, ('d, 'm) world) act" where
  "count_patient E p = (\<lambda>w. count_where E p_patient_id (patients w) p w)"

definition count_doctor :: "('d, 'm, 'f) env \<Rightarrow> 'f json \<Rightarrow> (nat, ('d, 'm) world) act" where
  "count_doctor E p = (\<lambda>w. count_where E d_doctor_id (doctors w) p w)"

definition count_appointment :: "('d, 'm, 'f) env \<Rightarrow> 'f json \<Rightarrow> (nat, ('d, 'm) world) act" where
  "count_appointment E p = (\<lambda>w. count_where E a_appointment_id (appointments w) p w)"

text \<open>
  \<open>INSERT INTO dbo.Appointment (patient_id, doctor_id, appointment_date, reason)
  VALUES (?, ?, ?, ?)\<close>: the row gets the next identity value. Constraints declared in
  the database are not in the repository and are not modelled.
\<close>

definition insert_appointment ::
  "('d, 'm, 'f) env \<Rightarrow> 'f json \<Rightarrow> 'f json \<Rightarrow> 'f json \<Rightarrow> 'f json \<Rightarrow> (unit, ('d, 'm) world) act" where
  "insert_appointment E patient_id doctor_id appointment_date reason = (\<lambda>w.
     case bind_key E patient_id of Inl e \<Rightarrow> (Inl e, executed Insert w) | Inr pid \<Rightarrow>
     (case bind_key E doctor_id of Inl e \<Rightarrow> (Inl e, executed Insert w) | Inr did \<Rightarrow>
     (case bind_date E appointment_date of Inl e \<Rightarrow> (Inl e, executed Insert w) | Inr dt \<Rightarrow>
     (case bind_text E reason of Inl e \<Rightarrow> (Inl e, executed Insert w) | Inr rs \<Rightarrow>
       (Inr (), executed Insert
          (w\<lparr>appointments := appointments w @
                [\<lparr>a_appointment_id = next_identity w, a_patient_id = pid, a_doctor_id = did,
                  a_appointment_date = dt, a_reason = rs\<rparr>],
             next_identity := next_identity w + 1,
             scope_identity := Some (next_identity w)\<rparr>))))))"

text \<open>\<open>SELECT SCOPE_IDENTITY()\<close> and \<open>int(cur.fetchone()[0])\<close>.\<close>

definition select_scope_identity :: "(int, ('d, 'm) world) act" where
  "select_scope_identity = (\<lambda>w.
     case scope_identity w of
       None \<Rightarrow> (Inl TypeError, executed Select w)
     | Some n \<Rightarrow> (Inr n, executed Select w))"

text \<open>The joined row \<open>WHERE a.appointment_id = ?\<close> and \<open>fetchone()\<close>.\<close>

definition select_appointment ::
  "('d, 'm, 'f) env \<Rightarrow> 'f json \<Rightarrow> ('d appt_row option, ('d, 'm) world) act" where
  "select_appointment E p = (\<lambda>w.
     case key_eq E (\<lambda>(a, _, _). Some (a_appointment_id a)) p of
       Inl e \<Rightarrow> (Inl e, executed Select w)
     | Inr P \<Rightarrow> (Inr (map_option appt_select (find P (appt_join w))), executed Select w))"

text \<open>\<open>_appointment_row_to_json(row)\<close>: \<open>row[0]\<close> on \<open>None\<close> raises \<open>TypeError\<close>.\<close>

definition row_json :: "('d, 'm, 'f) env \<Rightarrow> 'd appt_row option \<Rightarrow> exn + 'f json" where
  "row_json E row =
     (case row of None \<Rightarrow> Inl TypeError | Some r \<Rightarrow> Inr (appointment_row_to_json E r))"

text \<open>
  \<open>UPDATE dbo.Appointment SET s1, ..., sn WHERE appointment_id = ?\<close>: the assignments
  take the first parameters in their order, the \<open>WHERE\<close> clause takes the last one.
\<close>

datatype set_clause = Set_patient_id | Set_doctor_id | Set_appointment_date | Set_reason

fun set_clause_sql :: "set_clause \<Rightarrow> string" where
  "set_clause_sql Set_patient_id = ''patient_id = ?''"
| "set_clause_sql Set_doctor_id = ''doctor_id = ?''"
| "set_clause_sql Set_appointment_date = ''appointment_date = ?''"
| "set_clause_sql Set_reason = ''reason = ?''"

fun assign ::
  "('d, 'm, 'f) env \<Rightarrow> set_clause \<Rightarrow> 'f json \<Rightarrow> exn + ('d appointment \<Rightarrow> 'd appointment)" where
  "assign E Set_patient_id p =
     (case bind_key E p of Inl e \<Rightarrow> Inl e | Inr v \<Rightarrow> Inr (\<lambda>r. r\<lparr>a_patient_id := v\<rparr>))"
| "assign E Set_doctor_id p =
     (case bind_key E p of Inl e \<Rightarrow> Inl e | Inr v \<Rightarrow> Inr (\<lambda>r. r\<lparr>a_doctor_id := v\<rparr>))"
| "assign E Set_appointment_date p =
     (case bind_date E p of Inl e \<Rightarrow> Inl e | Inr v \<Rightarrow> Inr (\<lambda>r. r\<lparr>a_appointment_date := v\<rparr>))"
| "assign E Set_reason p =
     (case bind_text E p of Inl e \<Rightarrow> Inl e | Inr v \<Rightarrow> Inr (\<lambda>r. r\<lparr>a_reason := v\<rparr>))"

fun eval_sets ::
  "('d, 'm, 'f) env \<Rightarrow> set_clause list \<Rightarrow> 'f json list
     \<Rightarrow> exn + (('d appointment \<Rightarrow> 'd appointment) \<times> 'f json list)" where
  "eval_sets E [] ps = Inr (\<lambda>r. r, ps)"
| "eval_sets E (s # ss) [] = Inl StoreError"
| "eval_sets E (s # ss) (p # ps) =
     (case assign E s p of
        Inl e \<Rightarrow> Inl e
      | Inr f \<Rightarrow> (case eval_sets E ss ps of
                   Inl e \<Rightarrow> Inl e
                 | Inr (g, rest) \<Rightarrow> Inr (\<lambda>r. g (f r), rest)))"

definition update_where_id ::
  "('d, 'm, 'f) env \<Rightarrow> set_clause list \<Rightarrow> 'f json list \<Rightarrow> (unit, ('d, 'm) world) act" where
  "update_where_id E sets params = (\<lambda>w.
     case eval_sets E sets params of
       Inl e \<Rightarrow> (Inl e, executed Update w)
     | Inr (f, rest) \<Rightarrow>
         (case eval_where (\<lambda>_. key_eq E (\<lambda>r. Some (a_appointment_id r))) [()] rest of
            Inl e \<Rightarrow> (Inl e, executed Update w)
          | Inr P \<Rightarrow>
              (Inr (), executed Update
                 (w\<lparr>appointments := map (\<lambda>r. if P r then f r else r) (appointments w)\<rparr>))))"

text \<open>\<open>DELETE FROM dbo.Appointment WHERE appointment_id = ?\<close>\<close>

definition delete_where_id :: "('d, 'm, 'f) env \<Rightarrow> 'f json \<Rightarrow> (unit, ('d, 'm) world) act" where
  "delete_where_id E p = (\<lambda>w.
     case key_eq E (\<lambda>r. Some (a_appointment_id r)) p of
       Inl e \<Rightarrow> (Inl e, executed Delete w)
     | Inr P \<Rightarrow>
         (Inr (), executed Delete
            (w\<lparr>appointments := filter (\<lambda>r. \<not> P r) (appointments w)\<rparr>)))"

subsection \<open>The appointment endpoints\<close>

text \<open>
  A write is applied when its statement is executed. No exception can arise between a
  write and the \<open>conn.commit()\<close> that follows it, so the rollback of an uncommitted
  write on \<open>close\<close> never comes into play.
\<close>

definition created :: "'f json \<Rightarrow> 'f json" where
  "created j = JObj [(''success'', JBool True), (''appointment'', j)]"

definition create_appointment ::
  "('d, 'm, 'f) env \<Rightarrow> 'f payload \<Rightarrow> ('d, 'm) world \<Rightarrow> 'f response \<times> ('d, 'm) world" where
  "create_appointment E request =
     try_except
       (bnd (lift (get_json request)) (\<lambda>data.
        bnd (lift (data_get data ''patient_id'')) (\<lambda>v.
        bnd (lift (py_int (float_int E) v)) (\<lambda>patient_id.
        bnd (lift (data_get data ''doctor_id'')) (\<lambda>v.
        bnd (lift (py_int (float_int E) v)) (\<lambda>doctor_id.
        bnd (lift (data_get data ''appointment_date'')) (\<lambda>appointment_date.
        bnd (lift (data_get data ''reason'')) (\<lambda>reason.
        bnd get_conn (\<lambda>_.
        bnd (count_patient E (JInt patient_id)) (\<lambda>n.
        if n = 0 then
          bnd conn_close (\<lambda>_. ret (400, failure ''Invalid patient_id''))
        else
        bnd (count_doctor E (JInt doctor_id)) (\<lambda>n.
        if n = 0 then
          bnd conn_close (\<lambda>_. ret (400, failure ''Invalid doctor_id''))
        else
        bnd (insert_appointment E (JInt patient_id) (JInt doctor_id) appointment_date reason) (\<lambda>_.
        bnd select_scope_identity (\<lambda>new_id.
        bnd conn_commit (\<lambda>_.
        bnd (select_appointment E (JInt new_id)) (\<lambda>row.
        bnd conn_close (\<lambda>_.
        bnd (lift (row_json E row)) (\<lambda>j.
        ret (201, created j))))))))))))))))))
       (server_error E)"

text \<open>
  The blocks \<open>if v is not None: sets.append(c); params.append(int(v))\<close> and
  \<open>if v is not None: sets.append(c); params.append(v)\<close> of \<open>update_appointment\<close>.
\<close>

definition int_set ::
  "('d, 'm, 'f) env \<Rightarrow> set_clause \<Rightarrow> 'f json \<Rightarrow> set_clause list \<times> 'f json list
     \<Rightarrow> exn + (set_clause list \<times> 'f json list)" where
  "int_set E c v q =
     (if v = JNull then Inr q
      else (case py_int (float_int E) v of
              Inl e \<Rightarrow> Inl e
            | Inr n \<Rightarrow> Inr (fst q @ [c], snd q @ [JInt n])))"

definition raw_set ::
  "set_clause \<Rightarrow> 'f json \<Rightarrow> set_clause list \<times> 'f json list \<Rightarrow> set_clause list \<times> 'f json list" where
  "raw_set c v q = (if v = JNull then q else (fst q @ [c], snd q @ [v]))"

text \<open>
  \<open>if v is not None: cur.execute(count, (v,)); if cur.fetchone()[0] == 0: ...\<close>: whether
  the reference is supplied and has no target. The parameter is the value of the body,
  not the integer appended to \<open>params\<close>.
\<close>

definition reference_missing ::
  "('f json \<Rightarrow> (nat, 'w) act) \<Rightarrow> 'f json \<Rightarrow> (bool, 'w) act" where
  "reference_missing cnt v =
     (if v = JNull then ret False else bnd (cnt v) (\<lambda>n. ret (n = 0)))"

definition update_appointment ::
  "('d, 'm, 'f) env \<Rightarrow> int \<Rightarrow> 'f payload \<Rightarrow> ('d, 'm) world \<Rightarrow> 'f response \<times> ('d, 'm) world" where
  "update_appointment E appointment_id request =
     try_except
       (bnd (lift (get_json request)) (\<lambda>data.
        bnd (lift (data_get data ''patient_id'')) (\<lambda>patient_id.
        bnd (lift (data_get data ''doctor_id'')) (\<lambda>doctor_id.
        bnd (lift (data_get data ''appointment_date'')) (\<lambda>appointment_date.
        bnd (lift (data_get data ''reason'')) (\<lambda>reason.
        bnd (lift (int_set E Set_patient_id patient_id ([], []))) (\<lambda>q1.
        bnd (lift (int_set E Set_doctor_id doctor_id q1)) (\<lambda>q2.
        bnd (ret (raw_set Set_appointment_date appointment_date q2)) (\<lambda>q3.
        bnd (ret (raw_set Set_reason reason q3)) (\<lambda>q4.
        if fst q4 = [] then
          ret (400, failure ''Nothing to update'')
        else
        bnd get_conn (\<lambda>_.
        bnd (count_appointment E (JInt appointment_id)) (\<lambda>n.
        if n = 0 then
          bnd conn_close (\<lambda>_. ret (404, failure ''Appointment not found''))
        else
        bnd (reference_missing (count_patient E) patient_id) (\<lambda>missing.
        if missing then
          bnd conn_close (\<lambda>_. ret (400, failure ''Invalid patient_id''))
        else
        bnd (reference_missing (count_doctor E) doctor_id) (\<lambda>missing.
        if missing then
          bnd conn_close (\<lambda>_. ret (400, failure ''Invalid doctor_id''))
        else
        bnd (update_where_id E (fst q4) (snd q4 @ [JInt appointment_id])) (\<lambda>_.
        bnd conn_commit (\<lambda>_.
        bnd (select_appointment E (JInt appointment_id)) (\<lambda>row.
        bnd conn_close (\<lambda>_.
        bnd (lift (row_json E row)) (\<lambda>j.
        ret (200, created j))))))))))))))))))))
       (server_error E)"

definition delete_appointment ::
  "('d, 'm, 'f) env \<Rightarrow> int \<Rightarrow> ('d, 'm) world \<Rightarrow> 'f response \<times> ('d, 'm) world" where
  "delete_appointment E appointment_id =
     try_except
       (bnd get_conn (\<lambda>_.
        bnd (count_appointment E (JInt appointment_id)) (\<lambda>n.
        if n = 0 then
          bnd conn_close (\<lambda>_. ret (404, failure ''Appointment not found''))
        else
        bnd (delete_where_id E (JInt appointment_id)) (\<lambda>_.
        bnd conn_commit (\<lambda>_.
        bnd conn_close (\<lambda>_.
        ret (200, JObj [(''success'', JBool True), (''message'', JStr ''Appointment deleted'')])))))))
       (server_error E)"

subsection \<open>A sample deployment\<close>

text \<open>
  An environment and a world on which the handlers can be run: dates are day numbers,
  written in decimal in a request and printed as tally marks; the hash of a password is
  the password reversed.
\<close>

definition demo_env :: "(nat, int, int) env" where
  "demo_env =
     \<lparr>exn_str = (\<lambda>e. ''error''),
      date_str = (\<lambda>d. replicate d (CHR ''I'')),
      dec_float = (\<lambda>m. m),
      float_int = (\<lambda>x. Inr x),
      checkpw = (\<lambda>pw h. Inr (h = rev pw)),
      text_eq = (\<lambda>a b. a = b),
      key_of = (\<lambda>v. case v of JStr s \<Rightarrow> int_literal s | JFloat x \<Rightarrow> Some x | _ \<Rightarrow> None),
      date_of = (\<lambda>v. case v of
                       JStr s \<Rightarrow> (case int_literal s of
                                   None \<Rightarrow> None
                                 | Some n \<Rightarrow> if 0 \<le> n then Some (nat n) else None)
                     | _ \<Rightarrow> None),
      text_of = (\<lambda>v. None)\<rparr>"

definition demo_world :: "(nat, int) world" where
  "demo_world =
     \<lparr>patients =
        [\<lparr>p_patient_id = 1, p_name = Some ''Ann'', p_date_of_birth = None,
          p_gender = Some ''F'', p_address = None, p_phone = None\<rparr>],
      doctors =
        [\<lparr>d_doctor_id = 2, d_name = Some ''Bob'', d_specialty = None,
          d_phone = None, d_email = None\<rparr>],
      appointments =
        [\<lparr>a_appointment_id = 10, a_patient_id = Some 1, a_doctor_id = Some 2,
          a_appointment_date = Some 5, a_reason = Some ''Check-up''\<rparr>],
      treatments =
        [\<lparr>t_treatment_id = 7, t_appointment_id = Some 10, t_diagnosis = Some ''Flu'',
          t_prescription = None, t_notes = None\<rparr>],
      billing =
        [\<lparr>b_bill_id = 3, b_patient_id = Some 1, b_treatment_id = Some 7, b_amount = Some 120,
          b_payment_status = Some ''Paid'', b_billing_date = Some 6\<rparr>],
      users =
        [\<lparr>u_username = ''alice'', u_password_hash = Some ''terces'',
          u_full_name = Some ''Alice A'', u_role = Some ''admin''\<rparr>],
      next_identity = 11, scope_identity = None, open_conns = 0, trace = []\<rparr>"

text \<open>
  A world with more rows for the list endpoints: appointment 13 has no date and
  appointment 14 has no doctor.
\<close>

definition demo_clinic :: "(nat, int) world" where
  "demo_clinic =
     \<lparr>patients =
        [\<lparr>p_patient_id = 1, p_name = Some ''Ann'', p_date_of_birth = None,
          p_gender = Some ''F'', p_address = None, p_phone = None\<rparr>,
         \<lparr>p_patient_id = 2, p_name = Some ''Cy'', p_date_of_birth = Some 1,
          p_gender = None, p_address = None, p_phone = None\<rparr>],
      doctors =
        [\<lparr>d_doctor_id = 2, d_name = Some ''Bob'', d_specialty = None,
          d_phone = None, d_email = None\<rparr>,
         \<lparr>d_doctor_id = 3, d_name = Some ''Dee'', d_specialty = None,
          d_phone = None, d_email = None\<rparr>],
      appointments =
        [\<lparr>a_appointment_id = 10, a_patient_id = Some 1, a_doctor_id = Some 2,
          a_appointment_date = Some 5, a_reason = Some ''Check-up''\<rparr>,
         \<lparr>a_appointment_id = 11, a_patient_id = Some 2, a_doctor_id = Some 3,
          a_appointment_date = Some 9, a_reason = Some ''Cough''\<rparr>,
         \<lparr>a_appointment_id = 12, a_patient_id = Some 1, a_doctor_id = Some 3,
          a_appointment_date = Some 5, a_reason = None\<rparr>,
         \<lparr>a_appointment_id = 13, a_patient_id = Some 1, a_doctor_id = Some 2,
          a_appointment_date = None, a_reason = Some ''Scan''\<rparr>,
         \<lparr>a_appointment_id = 14, a_patient_id = Some 1, a_doctor_id = None,
          a_appointment_date = Some 7, a_reason = None\<rparr>],
      treatments =
        [\<lparr>t_treatment_id = 7, t_appointment_id = Some 10, t_diagnosis = Some ''Flu'',
          t_prescription = None, t_notes = None\<rparr>,
         \<lparr>t_treatment_id = 8, t_appointment_id = Some 10, t_diagnosis = None,
          t_prescription = Some ''Rest'', t_notes = None\<rparr>,
         \<lparr>t_treatment_id = 9, t_appointment_id = Some 11, t_diagnosis = None,
          t_prescription = None, t_notes = None\<rparr>],
      billing =
        [\<lparr>b_bill_id = 3, b_patient_id = Some 1, b_treatment_id = Some 7, b_amount = Some 120,
          b_payment_status = Some ''Paid'', b_billing_date = Some 6\<rparr>,
         \<lparr>b_bill_id = 4, b_patient_id = Some 1, b_treatment_id = None, b_amount = None,
          b_payment_status = Some ''Due'', b_billing_date = Some 6\<rparr>,
         \<lparr>b_bill_id = 5, b_patient_id = Some 2, b_treatment_id = Some 9, b_amount = Some 50,
          b_payment_status = Some ''Paid'', b_billing_date = Some 8\<rparr>],
      users = [],
      next_identity = 15, scope_identity = None, open_conns = 0, trace = []\<rparr>"


subsection \<open>What an update may change\<close>

text \<open>
  \<open>frame_fn data f\<close>: the change \<open>f\<close> of an appointment row keeps the id, keeps every
  column whose field is absent or \<open>null\<close> in the body, and leaves every column either
  as it was or with a value that is not \<open>NULL\<close>. \<open>frame_rel i data w w'\<close>: the world
  \<open>w'\<close> differs from \<open>w\<close> in its tables at most by such a change of the appointments
  with id \<open>i\<close>. \<open>keeps R m\<close>: running \<open>m\<close> takes every world to one related by \<open>R\<close>.
\<close>

definition frame_fn :: "'f body \<Rightarrow> ('d appointment \<Rightarrow> 'd appointment) \<Rightarrow> bool" where
  "frame_fn data f \<longleftrightarrow>
     (\<forall>r. a_appointment_id (f r) = a_appointment_id r
        \<and> (py_get data ''patient_id'' = JNull \<longrightarrow> a_patient_id (f r) = a_patient_id r)
        \<and> (py_get data ''doctor_id'' = JNull \<longrightarrow> a_doctor_id (f r) = a_doctor_id r)
        \<and> (py_get data ''appointment_date'' = JNull
              \<longrightarrow> a_appointment_date (f r) = a_appointment_date r)
        \<and> (py_get data ''reason'' = JNull \<longrightarrow> a_reason (f r) = a_reason r)
        \<and> (a_patient_id (f r) = a_patient_id r \<or> a_patient_id (f r) \<noteq> None)
        \<and> (a_doctor_id (f r) = a_doctor_id r \<or> a_doctor_id (f r) \<noteq> None)
        \<and> (a_appointment_date (f r) = a_appointment_date r \<or> a_appointment_date (f r) \<noteq> None)
        \<and> (a_reason (f r) = a_reason r \<or> a_reason (f r) \<noteq> None))"

definition frame_rel :: "int \<Rightarrow> 'f body \<Rightarrow> ('d, 'm) world \<Rightarrow> ('d, 'm) world \<Rightarrow> bool" where
  "frame_rel i data w w' \<longleftrightarrow>
     patients w' = patients w \<and> doctors w' = doctors w \<and> treatments w' = treatments w
     \<and> billing w' = billing w \<and> users w' = users w
     \<and> (\<exists>f. frame_fn data f
           \<and> appointments w' =
               map (\<lambda>r. if a_appointment_id r = i then f r else r) (appointments w))"

definition keeps :: "('w \<Rightarrow> 'w \<Rightarrow> bool) \<Rightarrow> ('a, 'w) act \<Rightarrow> bool" where
  "keeps R m \<longleftrightarrow> (\<forall>w. R w (snd (m w)))"

subsection \<open>What a list endpoint is to return\<close>

text \<open>
  The words of the specification. A filter is supplied when the query string has it with
  a text that is not empty. An integer filter is valid when \<open>int()\<close> accepts its text,
  a date filter when the server can convert its text. A supplied filter adds its
  predicate on the row, an absent one adds nothing: \<open>appt_matches\<close>,
  \<open>treat_matches\<close> and \<open>bill_matches\<close> are the conjunctions of the supplied
  predicates. \<open>newest_first\<close> is the order "date descending, then id descending" on
  the pairs of a date and an id.
\<close>

definition supplied :: "string option \<Rightarrow> string option" where
  "supplied v = (case v of None \<Rightarrow> None | Some s \<Rightarrow> if s = [] then None else Some s)"

definition int_filter_value :: "string option \<Rightarrow> int option \<Rightarrow> bool" where
  "int_filter_value v n \<longleftrightarrow>
     (case supplied v of
        None \<Rightarrow> n = None
      | Some s \<Rightarrow> int_literal s \<noteq> None \<and> n = int_literal s)"

definition date_filter_value :: "('d, 'm, 'f) env \<Rightarrow> string option \<Rightarrow> 'd option \<Rightarrow> bool" where
  "date_filter_value E v x \<longleftrightarrow>
     (case supplied v of
        None \<Rightarrow> x = None
      | Some s \<Rightarrow> date_of E (JStr s) \<noteq> None \<and> x = date_of E (JStr s))"

definition appt_matches ::
  "int option \<Rightarrow> int option \<Rightarrow> 'd option \<Rightarrow> 'd option
     \<Rightarrow> ('d::linorder) appointment \<times> 'd patient \<times> doctor \<Rightarrow> bool" where
  "appt_matches pid did dfrom dto = (\<lambda>(a, p, d).
     (case pid of None \<Rightarrow> True | Some n \<Rightarrow> a_patient_id a = Some n)
     \<and> (case did of None \<Rightarrow> True | Some n \<Rightarrow> a_doctor_id a = Some n)
     \<and> (case dfrom of None \<Rightarrow> True
         | Some x \<Rightarrow> (case a_appointment_date a of None \<Rightarrow> False | Some y \<Rightarrow> x \<le> y))
     \<and> (case dto of None \<Rightarrow> True
         | Some x \<Rightarrow> (case a_appointment_date a of None \<Rightarrow> False | Some y \<Rightarrow> y \<le> x)))"

definition treat_matches :: "int option \<Rightarrow> treatment \<Rightarrow> bool" where
  "treat_matches aid = (\<lambda>t. case aid of None \<Rightarrow> True | Some n \<Rightarrow> t_appointment_id t = Some n)"

definition bill_matches ::
  "('d, 'm, 'f) env \<Rightarrow> int option \<Rightarrow> string option \<Rightarrow> ('d, 'm) bill \<times> 'd patient \<Rightarrow> bool" where
  "bill_matches E pid status = (\<lambda>(b, p).
     (case pid of None \<Rightarrow> True | Some n \<Rightarrow> b_patient_id b = Some n)
     \<and> (case status of None \<Rightarrow> True
         | Some s \<Rightarrow> (case b_payment_status b of None \<Rightarrow> False | Some t \<Rightarrow> text_eq E t s)))"

definition newest_first :: "('d::linorder) option \<times> int \<Rightarrow> 'd option \<times> int \<Rightarrow> bool" where
  "newest_first x y \<longleftrightarrow> fst y < fst x \<or> (fst y = fst x \<and> snd y \<le> snd x)"

section \<open>Properties\<close>

lemmas act_defs =
  ret_def lift_def bnd_def try_except_def get_conn_def conn_close_def conn_commit_def executed_def

subsection \<open>Helper facts about the statements\<close>

lemma get_json_Dict [simp]: "get_json (Dict d) = Inr (Dict d)"
  by (simp add: get_json_def)

lemma data_get_Dict [simp]: "data_get (Dict d) k = Inr (py_get d k)"
  by (simp add: data_get_def)

lemma bnd_lift_Inr: "bnd (lift (Inr x)) f = f x"
  by (simp add: bnd_def lift_def)


lemma count_where_int:
  "count_where E col rows (JInt n) w =
     (Inr (length (filter (\<lambda>r. col r = n) rows)), w\<lparr>trace := trace w @ [Select]\<rparr>)"
  by (simp add: count_where_def key_eq_def bind_key_def executed_def)

lemma no_row_iff: "filter (\<lambda>r. col r = n) rows = [] \<longleftrightarrow> n \<notin> col ` set rows"
  by (auto simp: filter_empty_conv)

subsection \<open>Row mappers\<close>

text \<open>
  Claim C9. What each row mapper makes of each column, written out key by key.
  \<open>Patient.date_of_birth\<close> is rendered as the text of the date when the column has
  one and as \<open>null\<close> when the column is \<open>NULL\<close>, never as an empty text.
  \<open>Appointment.appointment_date\<close> and \<open>Billing.billing_date\<close> are rendered as a
  text in every case (for \<open>NULL\<close> it is the text \<open>None\<close>). \<open>Billing.amount\<close> is
  rendered as a float when present and as \<open>null\<close> otherwise. Every other column of
  the five mappers is handed on as it is: an integer as that integer, a text as that
  text, \<open>NULL\<close> as \<open>null\<close>.
\<close>

theorem row_mapper_coercions:
  "patient_row_to_json (E :: ('d, 'm, 'f) env)
      \<lparr>p_patient_id = pid, p_name = pname, p_date_of_birth = dob, p_gender = gender,
       p_address = address, p_phone = phone\<rparr>
     = JObj
        [(''patient_id'', JInt pid),
         (''name'', case pname of None \<Rightarrow> JNull | Some s \<Rightarrow> JStr s),
         (''date_of_birth'', case dob of None \<Rightarrow> JNull | Some d \<Rightarrow> JStr (date_str E d)),
         (''gender'', case gender of None \<Rightarrow> JNull | Some s \<Rightarrow> JStr s),
         (''address'', case address of None \<Rightarrow> JNull | Some s \<Rightarrow> JStr s),
         (''phone'', case phone of None \<Rightarrow> JNull | Some s \<Rightarrow> JStr s)]
   \<and> patient_row_to_json E
      \<lparr>p_patient_id = pid, p_name = Some name, p_date_of_birth = None, p_gender = None,
       p_address = None, p_phone = None\<rparr>
     = JObj
        [(''patient_id'', JInt pid), (''name'', JStr name), (''date_of_birth'', JNull),
         (''gender'', JNull), (''address'', JNull), (''phone'', JNull)]
   \<and> doctor_row_to_json
      \<lparr>d_doctor_id = did, d_name = dname, d_specialty = specialty, d_phone = dphone,
       d_email = email\<rparr>
     = JObj
        [(''doctor_id'', JInt did),
         (''name'', case dname of None \<Rightarrow> JNull | Some s \<Rightarrow> JStr s),
         (''specialty'', case specialty of None \<Rightarrow> JNull | Some s \<Rightarrow> JStr s),
         (''phone'', case dphone of None \<Rightarrow> JNull | Some s \<Rightarrow> JStr s),
         (''email'', case email of None \<Rightarrow> JNull | Some s \<Rightarrow> JStr s) :: string \<times> 'f json]
   \<and> appointment_row_to_json E
      \<lparr>r_appointment_id = aid, r_appointment_date = adate, r_reason = reason,
       r_patient_id = pid, r_patient_name = pname, r_doctor_id = did, r_doctor_name = dname\<rparr>
     = JObj
        [(''appointment_id'', JInt aid),
         (''appointment_date'', JStr (case adate of None \<Rightarrow> ''None'' | Some d \<Rightarrow> date_str E d)),
         (''reason'', case reason of None \<Rightarrow> JNull | Some s \<Rightarrow> JStr s),
         (''patient_id'', JInt pid),
         (''patient_name'', case pname of None \<Rightarrow> JNull | Some s \<Rightarrow> JStr s),
         (''doctor_id'', JInt did),
         (''doctor_name'', case dname of None \<Rightarrow> JNull | Some s \<Rightarrow> JStr s)]
   \<and> treatment_row_to_json
      \<lparr>t_treatment_id = tid, t_appointment_id = taid, t_diagnosis = diagnosis,
       t_prescription = prescription, t_notes = tnotes\<rparr>
     = JObj
        [(''treatment_id'', JInt tid),
         (''appointment_id'', case taid of None \<Rightarrow> JNull | Some n \<Rightarrow> JInt n),
         (''diagnosis'', case diagnosis of None \<Rightarrow> JNull | Some s \<Rightarrow> JStr s),
         (''prescription'', case prescription of None \<Rightarrow> JNull | Some s \<Rightarrow> JStr s),
         (''notes'', case tnotes of None \<Rightarrow> JNull | Some s \<Rightarrow> JStr s) :: string \<times> 'f json]
   \<and> billing_row_to_json E
      (\<lparr>b_bill_id = bid, b_patient_id = bpid, b_treatment_id = btid, b_amount = amount,
        b_payment_status = status, b_billing_date = bdate\<rparr>,
       \<lparr>p_patient_id = pid, p_name = pname, p_date_of_birth = dob, p_gender = gender,
        p_address = address, p_phone = phone\<rparr>)
     = JObj
        [(''bill_id'', JInt bid),
         (''patient_id'', case bpid of None \<Rightarrow> JNull | Some n \<Rightarrow> JInt n),
         (''patient_name'', case pname of None \<Rightarrow> JNull | Some s \<Rightarrow> JStr s),
         (''treatment_id'', case btid of None \<Rightarrow> JNull | Some n \<Rightarrow> JInt n),
         (''amount'', case amount of None \<Rightarrow> JNull | Some m \<Rightarrow> JFloat (dec_float E m)),
         (''payment_status'', case status of None \<Rightarrow> JNull | Some s \<Rightarrow> JStr s),
         (''billing_date'', JStr (case bdate of None \<Rightarrow> ''None'' | Some d \<Rightarrow> date_str E d))]"
  by (simp add: patient_row_to_json_def doctor_row_to_json_def appointment_row_to_json_def
        treatment_row_to_json_def billing_row_to_json_def jtext_def jint_def py_str_def
        split: option.splits)

theorem row_mapper_coercions_witness:
  "map (patient_row_to_json demo_env) (patients demo_world)
     = [JObj [(''patient_id'', JInt 1), (''name'', JStr ''Ann''), (''date_of_birth'', JNull),
              (''gender'', JStr ''F''), (''address'', JNull), (''phone'', JNull)]]
   \<and> map doctor_row_to_json (doctors demo_world)
     = [JObj [(''doctor_id'', JInt 2), (''name'', JStr ''Bob''), (''specialty'', JNull),
              (''phone'', JNull), (''email'', JNull)] :: int json]
   \<and> appointment_row_to_json demo_env
        \<lparr>r_appointment_id = 10, r_appointment_date = None, r_reason = None, r_patient_id = 1,
         r_patient_name = None, r_doctor_id = 2, r_doctor_name = None\<rparr>
     = JObj [(''appointment_id'', JInt 10), (''appointment_date'', JStr ''None''),
             (''reason'', JNull), (''patient_id'', JInt 1), (''patient_name'', JNull),
             (''doctor_id'', JInt 2), (''doctor_name'', JNull)]
   \<and> appointment_row_to_json demo_env
        \<lparr>r_appointment_id = 10, r_appointment_date = Some 3, r_reason = Some ''Check-up'',
         r_patient_id = 1, r_patient_name = Some ''Ann'', r_doctor_id = 2,
         r_doctor_name = Some ''Bob''\<rparr>
     = JObj [(''appointment_id'', JInt 10), (''appointment_date'', JStr ''III''),
             (''reason'', JStr ''Check-up''), (''patient_id'', JInt 1),
             (''patient_name'', JStr ''Ann''), (''doctor_id'', JInt 2),
             (''doctor_name'', JStr ''Bob'')]
   \<and> map treatment_row_to_json (treatments demo_world)
     = [JObj [(''treatment_id'', JInt 7), (''appointment_id'', JInt 10),
              (''diagnosis'', JStr ''Flu''), (''prescription'', JNull), (''notes'', JNull)]
        :: int json]
   \<and> billing_row_to_json demo_env
        (\<lparr>b_bill_id = 3, b_patient_id = Some 1, b_treatment_id = None, b_amount = Some 120,
          b_payment_status = Some ''Paid'', b_billing_date = Some 2\<rparr>,
         \<lparr>p_patient_id = 1, p_name = Some ''Ann'', p_date_of_birth = None, p_gender = Some ''F'',
          p_address = None, p_phone = None\<rparr>)
     = JObj [(''bill_id'', JInt 3), (''patient_id'', JInt 1), (''patient_name'', JStr ''Ann''),
             (''treatment_id'', JNull), (''amount'', JFloat 120), (''payment_status'', JStr ''Paid''),
             (''billing_date'', JStr ''II'')]
   \<and> billing_row_to_json demo_env
        (\<lparr>b_bill_id = 4, b_patient_id = None, b_treatment_id = Some 7, b_amount = None,
          b_payment_status = None, b_billing_date = None\<rparr>,
         \<lparr>p_patient_id = 1, p_name = None, p_date_of_birth = Some 4, p_gender = None,
          p_address = None, p_phone = None\<rparr>)
     = JObj [(''bill_id'', JInt 4), (''patient_id'', JNull), (''patient_name'', JNull),
             (''treatment_id'', JInt 7), (''amount'', JNull), (''payment_status'', JNull),
             (''billing_date'', JStr ''None'')]"
proof -
  have env: "date_str demo_env = (\<lambda>d. replicate d (CHR ''I''))" "dec_float demo_env = (\<lambda>m. m)"
    by (simp_all add: demo_env_def)
  show ?thesis
    using
    row_mapper_coercions [where E = demo_env and pid = 1 and pname = "Some ''Ann''"
      and dob = None and gender = "Some ''F''" and address = None and phone = None
      and did = 2 and dname = "Some ''Bob''" and specialty = None and dphone = None
      and email = None and aid = 10 and adate = "Some 3" and reason = "Some ''Check-up''"
      and tid = 7 and taid = "Some 10" and diagnosis = "Some ''Flu''" and prescription = None
      and tnotes = None and bid = 3 and bpid = "Some 1" and btid = None and amount = "Some 120"
      and status = "Some ''Paid''" and bdate = "Some 2" and name = "''Ann''"]
    row_mapper_coercions [where E = demo_env and pid = 1 and pname = None
      and dob = "Some 4" and gender = None and address = None and phone = None
      and did = 2 and dname = None and specialty = None and dphone = None
      and email = None and aid = 10 and adate = None and reason = None
      and tid = 7 and taid = None and diagnosis = None and prescription = None
      and tnotes = None and name = "''Ann''" and bid = 4 and bpid = None and btid = "Some 7" and amount = None
      and status = None and bdate = None]
    by (simp add: demo_world_def env eval_nat_numeral)
qed

subsection \<open>Login\<close>



subsection \<open>Updating with nothing to update, deleting what is not there\<close>

text \<open>
  Claim C3 says that every \<open>PUT /appointments/{id}\<close> that supplies none of
  \<open>patient_id\<close>, \<open>doctor_id\<close>, \<open>appointment_date\<close>, \<open>reason\<close> is answered with
  400. A body that is not a JSON object, such as the list \<open>[]\<close>, supplies none of them:
  \<open>data.get\<close> raises \<open>AttributeError\<close> and the answer is 500.
\<close>

theorem update_nothing_supplied_counterexample:
  "update_appointment demo_env 10 NotDict demo_world =
     ((500, JObj [(''success'', JBool False), (''message'', JStr ''Server Error: error'')]),
      demo_world)"
  by (simp add: update_appointment_def act_defs get_json_def data_get_def server_error_def
        failure_def demo_env_def)

text \<open>
  Claim C3, amended. A \<open>PUT /appointments/{id}\<close> whose body is a JSON object in which
  each of \<open>patient_id\<close>, \<open>doctor_id\<close>, \<open>appointment_date\<close>, \<open>reason\<close> is absent or
  \<open>null\<close> is answered with 400 and the message \<open>Nothing to update\<close>. A body that is
  not a JSON object is answered with 500. In both cases the world is left as it was: no
  connection is opened, no statement is executed, no record changes.
\<close>

theorem update_nothing_supplied:
  "(py_get data ''patient_id'' = JNull \<and> py_get data ''doctor_id'' = JNull
      \<and> py_get data ''appointment_date'' = JNull \<and> py_get data ''reason'' = JNull
    \<longrightarrow> update_appointment E i (Dict data) w =
          ((400, JObj [(''success'', JBool False), (''message'', JStr ''Nothing to update'')]), w))
   \<and> update_appointment E i NotDict w =
        ((500, JObj [(''success'', JBool False),
                     (''message'', JStr (''Server Error: '' @ exn_str E AttributeError))]), w)
   \<and> update_appointment E i NotJson w =
        ((500, JObj [(''success'', JBool False),
                     (''message'', JStr (''Server Error: '' @ exn_str E HTTPException))]), w)"
  by (simp add: update_appointment_def act_defs get_json_def data_get_def int_set_def
        raw_set_def server_error_def failure_def)

theorem update_nothing_supplied_witness:
  "update_appointment demo_env 10 (Dict Map.empty) demo_world
     = ((400, JObj [(''success'', JBool False), (''message'', JStr ''Nothing to update'')]),
        demo_world)
   \<and> update_appointment demo_env 10 (Dict [''reason'' \<mapsto> JNull, ''status'' \<mapsto> JStr ''x''])
        demo_world
     = ((400, JObj [(''success'', JBool False), (''message'', JStr ''Nothing to update'')]),
        demo_world)"
  using update_nothing_supplied [of Map.empty demo_env 10 demo_world]
    update_nothing_supplied [of "[''reason'' \<mapsto> JNull, ''status'' \<mapsto> JStr ''x'']"
      demo_env 10 demo_world]
  by (simp add: py_get_def)

text \<open>
  Claim C4. A \<open>DELETE /appointments/{id}\<close> for an id that no appointment has is answered
  with 404; the only statement executed is the \<open>SELECT COUNT(*)\<close>, the tables are
  unchanged and the connection is closed again.
\<close>

theorem delete_missing_appointment:
  assumes "i \<notin> a_appointment_id ` set (appointments w)"
  shows "delete_appointment E i w =
    ((404, failure ''Appointment not found''),
     w\<lparr>scope_identity := None, trace := trace w @ [Select]\<rparr>)"
  using assms
  by (simp add: delete_appointment_def act_defs count_appointment_def count_where_int no_row_iff)

theorem delete_missing_appointment_witness:
  "99 \<notin> a_appointment_id ` set (appointments demo_world)
   \<and> delete_appointment demo_env 99 demo_world =
      ((404, failure ''Appointment not found''), demo_world\<lparr>trace := [Select]\<rparr>)"
proof -
  have h: "99 \<notin> a_appointment_id ` set (appointments demo_world)"
    by (simp add: demo_world_def)
  show ?thesis
    using h delete_missing_appointment [OF h, of demo_env] by (simp add: demo_world_def)
qed

subsection \<open>Creating an appointment\<close>

lemma create_patient_not_int:
  assumes "py_int (float_int E) (py_get data ''patient_id'') = Inl e"
  shows "create_appointment E (Dict data) w = (server_error E e, w)"
  using assms by (simp add: create_appointment_def act_defs)

lemma create_doctor_not_int:
  assumes "py_int (float_int E) (py_get data ''patient_id'') = Inr pid"
    and "py_int (float_int E) (py_get data ''doctor_id'') = Inl e"
  shows "create_appointment E (Dict data) w = (server_error E e, w)"
  using assms by (simp add: create_appointment_def act_defs)

lemma create_patient_missing:
  assumes "py_int (float_int E) (py_get data ''patient_id'') = Inr pid"
    and "py_int (float_int E) (py_get data ''doctor_id'') = Inr did"
    and "pid \<notin> p_patient_id ` set (patients w)"
  shows "create_appointment E (Dict data) w =
    ((400, failure ''Invalid patient_id''),
     w\<lparr>scope_identity := None, trace := trace w @ [Select]\<rparr>)"
  using assms
  by (simp add: create_appointment_def act_defs count_patient_def count_where_int no_row_iff)

lemma create_doctor_missing:
  assumes "py_int (float_int E) (py_get data ''patient_id'') = Inr pid"
    and "py_int (float_int E) (py_get data ''doctor_id'') = Inr did"
    and "pid \<in> p_patient_id ` set (patients w)"
    and "did \<notin> d_doctor_id ` set (doctors w)"
  shows "create_appointment E (Dict data) w =
    ((400, failure ''Invalid doctor_id''),
     w\<lparr>scope_identity := None, trace := trace w @ [Select, Select]\<rparr>)"
  using assms
  by (simp add: create_appointment_def act_defs count_patient_def count_doctor_def
        count_where_int no_row_iff)

text \<open>
  Claim C2 says that every \<open>POST /appointments\<close> whose \<open>patient_id\<close> has no row in
  \<open>Patient\<close> is answered with 400. The handler converts \<open>patient_id\<close> and \<open>doctor_id\<close>
  with \<open>int()\<close> before it looks at the tables: a request with the unknown patient 999
  and no \<open>doctor_id\<close> is answered with 500.
\<close>

theorem create_unknown_patient_counterexample:
  "999 \<notin> p_patient_id ` set (patients demo_world)
   \<and> create_appointment demo_env (Dict [''patient_id'' \<mapsto> JInt 999]) demo_world
       = (server_error demo_env TypeError, demo_world)
   \<and> fst (server_error demo_env TypeError :: int response) = 500"
  by (simp add: create_appointment_def act_defs py_get_def server_error_def demo_world_def)

text \<open>
  Claim C2, amended. When \<open>patient_id\<close> and \<open>doctor_id\<close> both convert to integers and
  the patient has no row, the answer is 400 with the message \<open>Invalid patient_id\<close> and
  only the \<open>SELECT COUNT(*)\<close> on \<open>Patient\<close> is executed. Whenever \<open>patient_id\<close> does
  not convert to the id of a row of \<open>Patient\<close>, no \<open>INSERT\<close> is executed and the
  appointments are unchanged.
\<close>

theorem create_unknown_patient:
  "(py_int (float_int E) (py_get data ''patient_id'') = Inr pid
      \<and> py_int (float_int E) (py_get data ''doctor_id'') = Inr did
      \<and> pid \<notin> p_patient_id ` set (patients w)
    \<longrightarrow> create_appointment E (Dict data) w =
          ((400, failure ''Invalid patient_id''),
           w\<lparr>scope_identity := None, trace := trace w @ [Select]\<rparr>))
   \<and> ((\<forall>n. py_int (float_int E) (py_get data ''patient_id'') = Inr n
            \<longrightarrow> n \<notin> p_patient_id ` set (patients w))
    \<longrightarrow> appointments (snd (create_appointment E (Dict data) w)) = appointments w
        \<and> Insert \<notin> set (drop (length (trace w)) (trace (snd (create_appointment E (Dict data) w)))))"
proof (intro conjI impI)
  assume "py_int (float_int E) (py_get data ''patient_id'') = Inr pid
      \<and> py_int (float_int E) (py_get data ''doctor_id'') = Inr did
      \<and> pid \<notin> p_patient_id ` set (patients w)"
  then show "create_appointment E (Dict data) w =
      ((400, failure ''Invalid patient_id''),
       w\<lparr>scope_identity := None, trace := trace w @ [Select]\<rparr>)"
    by (simp add: create_patient_missing)
next
  assume a: "\<forall>n. py_int (float_int E) (py_get data ''patient_id'') = Inr n
      \<longrightarrow> n \<notin> p_patient_id ` set (patients w)"
  have "appointments (snd (create_appointment E (Dict data) w)) = appointments w
      \<and> Insert \<notin> set (drop (length (trace w)) (trace (snd (create_appointment E (Dict data) w))))"
  proof (cases "py_int (float_int E) (py_get data ''patient_id'')")
    case (Inl e)
    then show ?thesis by (simp add: create_patient_not_int)
  next
    case (Inr n)
    with a have n: "n \<notin> p_patient_id ` set (patients w)" by simp
    show ?thesis
    proof (cases "py_int (float_int E) (py_get data ''doctor_id'')")
      case (Inl e)
      with Inr show ?thesis by (simp add: create_doctor_not_int)
    next
      case (Inr m)
      with \<open>py_int (float_int E) (py_get data ''patient_id'') = Inr n\<close> n
      show ?thesis by (simp add: create_patient_missing)
    qed
  qed
  then show "appointments (snd (create_appointment E (Dict data) w)) = appointments w"
    and "Insert \<notin> set (drop (length (trace w)) (trace (snd (create_appointment E (Dict data) w))))"
    by simp_all
qed

theorem create_unknown_patient_witness:
  "999 \<notin> p_patient_id ` set (patients demo_world)
   \<and> create_appointment demo_env (Dict [''patient_id'' \<mapsto> JInt 999, ''doctor_id'' \<mapsto> JInt 2]) demo_world
       = ((400, failure ''Invalid patient_id''), demo_world\<lparr>trace := [Select]\<rparr>)
   \<and> appointments (snd (create_appointment demo_env
        (Dict [''patient_id'' \<mapsto> JInt 999, ''doctor_id'' \<mapsto> JInt 2]) demo_world))
       = appointments demo_world"
  using create_unknown_patient [of demo_env
      "[''patient_id'' \<mapsto> JInt 999, ''doctor_id'' \<mapsto> JInt 2]" 999 2 demo_world]
  by (simp add: py_get_def demo_world_def)

subsection \<open>Filters that are not numbers\<close>






subsection \<open>The connection on the exception path\<close>

text \<open>
  Claim C7 says that on every exit path the connection acquired by a handler is
  released before the handler returns. Every \<open>return\<close> inside the \<open>try\<close> is preceded
  by \<open>conn.close()\<close>; the \<open>except\<close> branch is not. When \<open>execute\<close> raises, here on
  \<open>GET /appointments?from=abc\<close>, whose date the server cannot convert, the handler
  answers 500 and the connection it opened is still open.
\<close>

theorem connection_open_after_store_error:
  "open_conns demo_world = 0
   \<and> get_appointments demo_env [''from'' \<mapsto> ''abc''] demo_world =
       (server_error demo_env StoreError, demo_world\<lparr>open_conns := 1, trace := [Select]\<rparr>)
   \<and> fst (server_error demo_env StoreError :: int response) = 500"
  by (simp add: get_appointments_def act_defs int_filter_def str_filter_def
        select_appointments_def date_ge_def bind_date_def server_error_def
        demo_world_def demo_env_def int_literal_def
        py_strip_def py_isspace_def unsigned_literal_def digit_of_def)

subsection \<open>The order of the checks\<close>

lemma count_where_key:
  assumes "bind_key E v = Inr (Some k)"
  shows "count_where E col rows v w =
    (Inr (length (filter (\<lambda>r. col r = k) rows)), w\<lparr>trace := trace w @ [Select]\<rparr>)"
  using assms by (simp add: count_where_def key_eq_def executed_def)

lemma int_set_null: "int_set E c JNull q = Inr q"
  by (simp add: int_set_def)

lemma int_set_int:
  assumes "v \<noteq> JNull" and "py_int (float_int E) v = Inr n"
  shows "int_set E c v q = Inr (fst q @ [c], snd q @ [JInt n])"
  using assms by (simp add: int_set_def)

lemma update_target_missing:
  assumes "py_get data ''patient_id'' = JNull
      \<or> (\<exists>n. py_int (float_int E) (py_get data ''patient_id'') = Inr n)"
    and "py_get data ''doctor_id'' = JNull
      \<or> (\<exists>n. py_int (float_int E) (py_get data ''doctor_id'') = Inr n)"
    and "\<not> (py_get data ''patient_id'' = JNull \<and> py_get data ''doctor_id'' = JNull
         \<and> py_get data ''appointment_date'' = JNull \<and> py_get data ''reason'' = JNull)"
    and "i \<notin> a_appointment_id ` set (appointments w)"
  shows "update_appointment E i (Dict data) w =
    ((404, failure ''Appointment not found''),
     w\<lparr>scope_identity := None, trace := trace w @ [Select]\<rparr>)"
proof -
  obtain q1 where q1: "int_set E Set_patient_id (py_get data ''patient_id'') ([], []) = Inr q1"
    and f1: "fst q1 = [] \<longleftrightarrow> py_get data ''patient_id'' = JNull"
    using assms(1) by (cases "py_get data ''patient_id'' = JNull") (auto simp: int_set_def)
  obtain q2 where q2: "int_set E Set_doctor_id (py_get data ''doctor_id'') q1 = Inr q2"
    and f2: "fst q2 = [] \<longleftrightarrow> fst q1 = [] \<and> py_get data ''doctor_id'' = JNull"
    using assms(2) by (cases "py_get data ''doctor_id'' = JNull") (auto simp: int_set_def)
  have f4: "fst (raw_set Set_reason (py_get data ''reason'')
      (raw_set Set_appointment_date (py_get data ''appointment_date'') q2)) \<noteq> []"
    using assms(3) f1 f2 by (auto simp: raw_set_def)
  show ?thesis
    using q1 q2 f4 assms(4)
    by (simp add: update_appointment_def act_defs count_appointment_def count_where_int
          no_row_iff)
qed

lemma update_patient_missing:
  assumes "i \<in> a_appointment_id ` set (appointments w)"
    and "py_get data ''patient_id'' \<noteq> JNull"
    and "py_int (float_int E) (py_get data ''patient_id'') = Inr n"
    and "py_get data ''doctor_id'' = JNull
      \<or> (\<exists>m. py_int (float_int E) (py_get data ''doctor_id'') = Inr m)"
    and "bind_key E (py_get data ''patient_id'') = Inr (Some k)"
    and "k \<notin> p_patient_id ` set (patients w)"
  shows "update_appointment E i (Dict data) w =
    ((400, failure ''Invalid patient_id''),
     w\<lparr>scope_identity := None, trace := trace w @ [Select, Select]\<rparr>)"
proof -
  let ?q1 = "([Set_patient_id], [JInt n])"
  have q1: "int_set E Set_patient_id (py_get data ''patient_id'') ([], []) = Inr ?q1"
    using assms(2,3) by (simp add: int_set_int)
  obtain q2 where q2: "int_set E Set_doctor_id (py_get data ''doctor_id'') ?q1 = Inr q2"
    and f2: "fst q2 \<noteq> []"
    using assms(4) by (cases "py_get data ''doctor_id'' = JNull") (auto simp: int_set_def)
  have f4: "fst (raw_set Set_reason (py_get data ''reason'')
      (raw_set Set_appointment_date (py_get data ''appointment_date'') q2)) \<noteq> []"
    using f2 by (auto simp: raw_set_def)
  show ?thesis
    using q1 q2 f4 assms(1,2,5,6)
    by (simp add: update_appointment_def act_defs count_appointment_def count_where_int
          no_row_iff reference_missing_def count_patient_def count_where_key)
qed

lemma update_doctor_missing:
  assumes "i \<in> a_appointment_id ` set (appointments w)"
    and "py_get data ''patient_id'' = JNull
      \<or> (py_int (float_int E) (py_get data ''patient_id'') = Inr n
          \<and> bind_key E (py_get data ''patient_id'') = Inr (Some k)
          \<and> k \<in> p_patient_id ` set (patients w))"
    and "py_get data ''doctor_id'' \<noteq> JNull"
    and "py_int (float_int E) (py_get data ''doctor_id'') = Inr m"
    and "bind_key E (py_get data ''doctor_id'') = Inr (Some j)"
    and "j \<notin> d_doctor_id ` set (doctors w)"
  shows "fst (update_appointment E i (Dict data) w) = (400, failure ''Invalid doctor_id'')"
proof (cases "py_get data ''patient_id'' = JNull")
  case True
  let ?q2 = "([Set_doctor_id], [JInt m])"
  have q2: "int_set E Set_doctor_id (py_get data ''doctor_id'') ([], []) = Inr ?q2"
    using assms(3,4) by (simp add: int_set_int)
  have f4: "fst (raw_set Set_reason (py_get data ''reason'')
      (raw_set Set_appointment_date (py_get data ''appointment_date'') ?q2)) \<noteq> []"
    by (auto simp: raw_set_def)
  show ?thesis
    using True q2 f4 assms(1,3,5,6)
    by (simp add: update_appointment_def act_defs count_appointment_def count_where_int
          no_row_iff reference_missing_def count_doctor_def count_where_key int_set_null)
next
  case False
  with assms(2) have p: "py_int (float_int E) (py_get data ''patient_id'') = Inr n"
    and b: "bind_key E (py_get data ''patient_id'') = Inr (Some k)"
    and k: "k \<in> p_patient_id ` set (patients w)"
    by simp_all
  let ?q1 = "([Set_patient_id], [JInt n])"
  let ?q2 = "([Set_patient_id, Set_doctor_id], [JInt n, JInt m])"
  have q1: "int_set E Set_patient_id (py_get data ''patient_id'') ([], []) = Inr ?q1"
    using False p by (simp add: int_set_int)
  have q2: "int_set E Set_doctor_id (py_get data ''doctor_id'') ?q1 = Inr ?q2"
    using assms(3,4) by (simp add: int_set_int)
  have f4: "fst (raw_set Set_reason (py_get data ''reason'')
      (raw_set Set_appointment_date (py_get data ''appointment_date'') ?q2)) \<noteq> []"
    by (auto simp: raw_set_def)
  show ?thesis
    using False q1 q2 f4 b k assms(1,3,5,6)
    by (simp add: update_appointment_def act_defs count_appointment_def count_where_int
          no_row_iff reference_missing_def count_patient_def count_doctor_def count_where_key)
qed

lemma update_patient_not_int:
  assumes "py_get data ''patient_id'' \<noteq> JNull"
    and "py_int (float_int E) (py_get data ''patient_id'') = Inl e"
  shows "update_appointment E i (Dict data) w = (server_error E e, w)"
  using assms by (simp add: update_appointment_def act_defs int_set_def)

lemma update_doctor_not_int:
  assumes "py_get data ''patient_id'' = JNull
      \<or> (\<exists>n. py_int (float_int E) (py_get data ''patient_id'') = Inr n)"
    and "py_get data ''doctor_id'' \<noteq> JNull"
    and "py_int (float_int E) (py_get data ''doctor_id'') = Inl e"
  shows "update_appointment E i (Dict data) w = (server_error E e, w)"
proof -
  obtain q1 where "int_set E Set_patient_id (py_get data ''patient_id'') ([], []) = Inr q1"
    using assms(1) by (cases "py_get data ''patient_id'' = JNull") (auto simp: int_set_def)
  then show ?thesis
    using assms(2,3) by (simp add: update_appointment_def act_defs int_set_def)
qed

text \<open>
  Claim C8 says that the existence of a supplied \<open>patient_id\<close> and \<open>doctor_id\<close> is
  checked before the existence of the record to update, so that a \<open>PUT\<close> with an
  unknown patient on an unknown appointment is answered with 400. The handler counts the
  appointment first: the answer is 404.
\<close>

theorem check_order_counterexample:
  "99 \<notin> a_appointment_id ` set (appointments demo_world)
   \<and> 999 \<notin> p_patient_id ` set (patients demo_world)
   \<and> update_appointment demo_env 99 (Dict [''patient_id'' \<mapsto> JInt 999]) demo_world
       = ((404, JObj [(''success'', JBool False), (''message'', JStr ''Appointment not found'')]),
          demo_world\<lparr>trace := [Select]\<rparr>)"
  by (simp add: update_appointment_def act_defs py_get_def int_set_def raw_set_def
        count_appointment_def count_where_int failure_def demo_world_def)

text \<open>
  Claim C8, amended. The checks come after the conversions, in this order.

  \<open>create_appointment\<close>: \<open>int()\<close> converts \<open>patient_id\<close>, then \<open>doctor_id\<close>; a
  failure of either is answered with 500 and no statement is executed. When both
  convert, the patient is counted first: a patient without a row is answered with 400
  \<open>Invalid patient_id\<close> after that one \<open>SELECT\<close>, whether the doctor has a row or
  not. A patient with a row and a doctor without one is answered with 400
  \<open>Invalid doctor_id\<close> after two \<open>SELECT\<close>s.

  \<open>update_appointment\<close>: \<open>int()\<close> converts \<open>patient_id\<close> if supplied (not
  \<open>null\<close>), then \<open>doctor_id\<close> if supplied; a failure of either is answered with 500
  and no statement is executed. When the supplied ones convert and the body supplies at
  least one of the four fields, the record is counted first: an id without an
  appointment is answered with 404 \<open>Appointment not found\<close> after that one
  \<open>SELECT\<close>, whether the supplied references have rows or not. When the appointment
  exists, a supplied \<open>patient_id\<close> that the server reads as a key without a row in
  \<open>Patient\<close> is answered with 400 \<open>Invalid patient_id\<close> after two \<open>SELECT\<close>s,
  whether the doctor has a row or not. When the patient is absent or has a row, a
  supplied \<open>doctor_id\<close> that the server reads as a key without a row in \<open>Doctor\<close>
  is answered with 400 \<open>Invalid doctor_id\<close>.
\<close>

theorem check_order:
  "(py_int (float_int E) (py_get data ''patient_id'') = Inl e
    \<longrightarrow> create_appointment E (Dict data) w =
          ((500, JObj [(''success'', JBool False),
                       (''message'', JStr (''Server Error: '' @ exn_str E e))]), w))
   \<and> (py_int (float_int E) (py_get data ''patient_id'') = Inr pid
      \<and> py_int (float_int E) (py_get data ''doctor_id'') = Inl e
    \<longrightarrow> create_appointment E (Dict data) w =
          ((500, JObj [(''success'', JBool False),
                       (''message'', JStr (''Server Error: '' @ exn_str E e))]), w))
   \<and> (py_int (float_int E) (py_get data ''patient_id'') = Inr pid
      \<and> py_int (float_int E) (py_get data ''doctor_id'') = Inr did
      \<and> pid \<notin> p_patient_id ` set (patients w)
    \<longrightarrow> create_appointment E (Dict data) w =
          ((400, JObj [(''success'', JBool False), (''message'', JStr ''Invalid patient_id'')]),
           w\<lparr>scope_identity := None, trace := trace w @ [Select]\<rparr>))
   \<and> (py_int (float_int E) (py_get data ''patient_id'') = Inr pid
      \<and> py_int (float_int E) (py_get data ''doctor_id'') = Inr did
      \<and> pid \<in> p_patient_id ` set (patients w) \<and> did \<notin> d_doctor_id ` set (doctors w)
    \<longrightarrow> create_appointment E (Dict data) w =
          ((400, JObj [(''success'', JBool False), (''message'', JStr ''Invalid doctor_id'')]),
           w\<lparr>scope_identity := None, trace := trace w @ [Select, Select]\<rparr>))
   \<and> (py_get data ''patient_id'' \<noteq> JNull
      \<and> py_int (float_int E) (py_get data ''patient_id'') = Inl e
    \<longrightarrow> update_appointment E i (Dict data) w =
          ((500, JObj [(''success'', JBool False),
                       (''message'', JStr (''Server Error: '' @ exn_str E e))]), w))
   \<and> ((py_get data ''patient_id'' = JNull
          \<or> (\<exists>n. py_int (float_int E) (py_get data ''patient_id'') = Inr n))
      \<and> py_get data ''doctor_id'' \<noteq> JNull
      \<and> py_int (float_int E) (py_get data ''doctor_id'') = Inl e
    \<longrightarrow> update_appointment E i (Dict data) w =
          ((500, JObj [(''success'', JBool False),
                       (''message'', JStr (''Server Error: '' @ exn_str E e))]), w))
   \<and> ((py_get data ''patient_id'' = JNull
          \<or> (\<exists>n. py_int (float_int E) (py_get data ''patient_id'') = Inr n))
      \<and> (py_get data ''doctor_id'' = JNull
          \<or> (\<exists>n. py_int (float_int E) (py_get data ''doctor_id'') = Inr n))
      \<and> \<not> (py_get data ''patient_id'' = JNull \<and> py_get data ''doctor_id'' = JNull
           \<and> py_get data ''appointment_date'' = JNull \<and> py_get data ''reason'' = JNull)
      \<and> i \<notin> a_appointment_id ` set (appointments w)
    \<longrightarrow> update_appointment E i (Dict data) w =
          ((404, JObj [(''success'', JBool False), (''message'', JStr ''Appointment not found'')]),
           w\<lparr>scope_identity := None, trace := trace w @ [Select]\<rparr>))
   \<and> (i \<in> a_appointment_id ` set (appointments w)
      \<and> py_get data ''patient_id'' \<noteq> JNull
      \<and> py_int (float_int E) (py_get data ''patient_id'') = Inr pid
      \<and> (py_get data ''doctor_id'' = JNull
          \<or> (\<exists>n. py_int (float_int E) (py_get data ''doctor_id'') = Inr n))
      \<and> bind_key E (py_get data ''patient_id'') = Inr (Some k)
      \<and> k \<notin> p_patient_id ` set (patients w)
    \<longrightarrow> update_appointment E i (Dict data) w =
          ((400, JObj [(''success'', JBool False), (''message'', JStr ''Invalid patient_id'')]),
           w\<lparr>scope_identity := None, trace := trace w @ [Select, Select]\<rparr>))
   \<and> (i \<in> a_appointment_id ` set (appointments w)
      \<and> (py_get data ''patient_id'' = JNull
          \<or> (py_int (float_int E) (py_get data ''patient_id'') = Inr pid
              \<and> bind_key E (py_get data ''patient_id'') = Inr (Some k)
              \<and> k \<in> p_patient_id ` set (patients w)))
      \<and> py_get data ''doctor_id'' \<noteq> JNull
      \<and> py_int (float_int E) (py_get data ''doctor_id'') = Inr did
      \<and> bind_key E (py_get data ''doctor_id'') = Inr (Some j)
      \<and> j \<notin> d_doctor_id ` set (doctors w)
    \<longrightarrow> fst (update_appointment E i (Dict data) w) =
          (400, JObj [(''success'', JBool False), (''message'', JStr ''Invalid doctor_id'')]))"
proof (intro conjI impI)
  assume "py_int (float_int E) (py_get data ''patient_id'') = Inl e"
  then show "create_appointment E (Dict data) w =
      ((500, JObj [(''success'', JBool False),
                   (''message'', JStr (''Server Error: '' @ exn_str E e))]), w)"
    by (simp add: create_patient_not_int server_error_def failure_def)
next
  assume "py_int (float_int E) (py_get data ''patient_id'') = Inr pid
      \<and> py_int (float_int E) (py_get data ''doctor_id'') = Inl e"
  then show "create_appointment E (Dict data) w =
      ((500, JObj [(''success'', JBool False),
                   (''message'', JStr (''Server Error: '' @ exn_str E e))]), w)"
    by (simp add: create_doctor_not_int [where pid = pid] server_error_def failure_def)
next
  assume "py_int (float_int E) (py_get data ''patient_id'') = Inr pid
      \<and> py_int (float_int E) (py_get data ''doctor_id'') = Inr did
      \<and> pid \<notin> p_patient_id ` set (patients w)"
  then show "create_appointment E (Dict data) w =
      ((400, JObj [(''success'', JBool False), (''message'', JStr ''Invalid patient_id'')]),
       w\<lparr>scope_identity := None, trace := trace w @ [Select]\<rparr>)"
    by (simp add: create_patient_missing failure_def)
next
  assume "py_int (float_int E) (py_get data ''patient_id'') = Inr pid
      \<and> py_int (float_int E) (py_get data ''doctor_id'') = Inr did
      \<and> pid \<in> p_patient_id ` set (patients w) \<and> did \<notin> d_doctor_id ` set (doctors w)"
  then show "create_appointment E (Dict data) w =
      ((400, JObj [(''success'', JBool False), (''message'', JStr ''Invalid doctor_id'')]),
       w\<lparr>scope_identity := None, trace := trace w @ [Select, Select]\<rparr>)"
    by (simp add: create_doctor_missing failure_def)
next
  assume "py_get data ''patient_id'' \<noteq> JNull
      \<and> py_int (float_int E) (py_get data ''patient_id'') = Inl e"
  then show "update_appointment E i (Dict data) w =
      ((500, JObj [(''success'', JBool False),
                   (''message'', JStr (''Server Error: '' @ exn_str E e))]), w)"
    by (simp add: update_patient_not_int server_error_def failure_def)
next
  assume "(py_get data ''patient_id'' = JNull
          \<or> (\<exists>n. py_int (float_int E) (py_get data ''patient_id'') = Inr n))
      \<and> py_get data ''doctor_id'' \<noteq> JNull
      \<and> py_int (float_int E) (py_get data ''doctor_id'') = Inl e"
  then have "update_appointment E i (Dict data) w = (server_error E e, w)"
    by (intro update_doctor_not_int) simp_all
  then show "update_appointment E i (Dict data) w =
      ((500, JObj [(''success'', JBool False),
                   (''message'', JStr (''Server Error: '' @ exn_str E e))]), w)"
    by (simp add: server_error_def failure_def)
next
  assume "(py_get data ''patient_id'' = JNull
          \<or> (\<exists>n. py_int (float_int E) (py_get data ''patient_id'') = Inr n))
      \<and> (py_get data ''doctor_id'' = JNull
          \<or> (\<exists>n. py_int (float_int E) (py_get data ''doctor_id'') = Inr n))
      \<and> \<not> (py_get data ''patient_id'' = JNull \<and> py_get data ''doctor_id'' = JNull
           \<and> py_get data ''appointment_date'' = JNull \<and> py_get data ''reason'' = JNull)
      \<and> i \<notin> a_appointment_id ` set (appointments w)"
  then have "update_appointment E i (Dict data) w =
      ((404, failure ''Appointment not found''),
       w\<lparr>scope_identity := None, trace := trace w @ [Select]\<rparr>)"
    by (intro update_target_missing) simp_all
  then show "update_appointment E i (Dict data) w =
      ((404, JObj [(''success'', JBool False), (''message'', JStr ''Appointment not found'')]),
       w\<lparr>scope_identity := None, trace := trace w @ [Select]\<rparr>)"
    by (simp add: failure_def)
next
  assume "i \<in> a_appointment_id ` set (appointments w)
      \<and> py_get data ''patient_id'' \<noteq> JNull
      \<and> py_int (float_int E) (py_get data ''patient_id'') = Inr pid
      \<and> (py_get data ''doctor_id'' = JNull
          \<or> (\<exists>n. py_int (float_int E) (py_get data ''doctor_id'') = Inr n))
      \<and> bind_key E (py_get data ''patient_id'') = Inr (Some k)
      \<and> k \<notin> p_patient_id ` set (patients w)"
  then have "update_appointment E i (Dict data) w =
      ((400, failure ''Invalid patient_id''),
       w\<lparr>scope_identity := None, trace := trace w @ [Select, Select]\<rparr>)"
    by (intro update_patient_missing [where n = pid and k = k]) simp_all
  then show "update_appointment E i (Dict data) w =
      ((400, JObj [(''success'', JBool False), (''message'', JStr ''Invalid patient_id'')]),
       w\<lparr>scope_identity := None, trace := trace w @ [Select, Select]\<rparr>)"
    by (simp add: failure_def)
next
  assume "i \<in> a_appointment_id ` set (appointments w)
      \<and> (py_get data ''patient_id'' = JNull
          \<or> (py_int (float_int E) (py_get data ''patient_id'') = Inr pid
              \<and> bind_key E (py_get data ''patient_id'') = Inr (Some k)
              \<and> k \<in> p_patient_id ` set (patients w)))
      \<and> py_get data ''doctor_id'' \<noteq> JNull
      \<and> py_int (float_int E) (py_get data ''doctor_id'') = Inr did
      \<and> bind_key E (py_get data ''doctor_id'') = Inr (Some j)
      \<and> j \<notin> d_doctor_id ` set (doctors w)"
  then have "fst (update_appointment E i (Dict data) w) = (400, failure ''Invalid doctor_id'')"
    by (intro update_doctor_missing [where n = pid and k = k and m = did and j = j]) simp_all
  then show "fst (update_appointment E i (Dict data) w) =
      (400, JObj [(''success'', JBool False), (''message'', JStr ''Invalid doctor_id'')])"
    by (simp add: failure_def)
qed

theorem check_order_witness:
  "create_appointment demo_env (Dict [''patient_id'' \<mapsto> JInt 999, ''doctor_id'' \<mapsto> JStr ''abc''])
        demo_world
     = ((500, JObj [(''success'', JBool False), (''message'', JStr ''Server Error: error'')]),
        demo_world)
   \<and> create_appointment demo_env (Dict [''patient_id'' \<mapsto> JInt 999, ''doctor_id'' \<mapsto> JInt 888])
        demo_world
     = ((400, JObj [(''success'', JBool False), (''message'', JStr ''Invalid patient_id'')]),
        demo_world\<lparr>trace := [Select]\<rparr>)
   \<and> create_appointment demo_env (Dict [''patient_id'' \<mapsto> JInt 1, ''doctor_id'' \<mapsto> JInt 888])
        demo_world
     = ((400, JObj [(''success'', JBool False), (''message'', JStr ''Invalid doctor_id'')]),
        demo_world\<lparr>trace := [Select, Select]\<rparr>)
   \<and> update_appointment demo_env 99 (Dict [''patient_id'' \<mapsto> JStr ''abc'']) demo_world
     = ((500, JObj [(''success'', JBool False), (''message'', JStr ''Server Error: error'')]),
        demo_world)
   \<and> update_appointment demo_env 99
        (Dict [''patient_id'' \<mapsto> JInt 999, ''doctor_id'' \<mapsto> JInt 888]) demo_world
     = ((404, JObj [(''success'', JBool False), (''message'', JStr ''Appointment not found'')]),
        demo_world\<lparr>trace := [Select]\<rparr>)
   \<and> update_appointment demo_env 10
        (Dict [''patient_id'' \<mapsto> JInt 999, ''doctor_id'' \<mapsto> JInt 888]) demo_world
     = ((400, JObj [(''success'', JBool False), (''message'', JStr ''Invalid patient_id'')]),
        demo_world\<lparr>trace := [Select, Select]\<rparr>)
   \<and> fst (update_appointment demo_env 10
        (Dict [''patient_id'' \<mapsto> JInt 1, ''doctor_id'' \<mapsto> JInt 888]) demo_world)
     = (400, JObj [(''success'', JBool False), (''message'', JStr ''Invalid doctor_id'')])"
proof -
  let ?abc = "[''patient_id'' \<mapsto> JInt 999, ''doctor_id'' \<mapsto> JStr ''abc''] :: int body"
  let ?pabc = "[''patient_id'' \<mapsto> JStr ''abc''] :: int body"
  let ?bad = "[''patient_id'' \<mapsto> JInt 999, ''doctor_id'' \<mapsto> JInt 888] :: int body"
  let ?half = "[''patient_id'' \<mapsto> JInt 1, ''doctor_id'' \<mapsto> JInt 888] :: int body"
  have x: "exn_str demo_env = (\<lambda>e. ''error'')"
    by (simp add: demo_env_def)
  have abc: "int_literal ''abc'' = None"
    by (simp add: int_literal_def py_strip_def py_isspace_def unsigned_literal_def digit_of_def)
  have 0: "create_appointment demo_env (Dict ?abc) demo_world
      = ((500, JObj [(''success'', JBool False), (''message'', JStr ''Server Error: error'')]),
         demo_world)"
    using check_order [of demo_env ?abc "ValueError ''abc''" demo_world 999]
    by (simp add: py_get_def abc x)
  have 1: "create_appointment demo_env (Dict ?bad) demo_world
      = ((400, JObj [(''success'', JBool False), (''message'', JStr ''Invalid patient_id'')]),
         demo_world\<lparr>trace := [Select]\<rparr>)"
    using check_order [of demo_env ?bad _ demo_world 999 888]
    by (simp add: py_get_def demo_world_def)
  have 2: "create_appointment demo_env (Dict ?half) demo_world
      = ((400, JObj [(''success'', JBool False), (''message'', JStr ''Invalid doctor_id'')]),
         demo_world\<lparr>trace := [Select, Select]\<rparr>)"
    using check_order [of demo_env ?half _ demo_world 1 888]
    by (simp add: py_get_def demo_world_def)
  have 3: "update_appointment demo_env 99 (Dict ?pabc) demo_world
      = ((500, JObj [(''success'', JBool False), (''message'', JStr ''Server Error: error'')]),
         demo_world)"
    using check_order [of demo_env ?pabc "ValueError ''abc''" demo_world _ _ 99]
    by (simp add: py_get_def abc x)
  have 4: "update_appointment demo_env 99 (Dict ?bad) demo_world
      = ((404, JObj [(''success'', JBool False), (''message'', JStr ''Appointment not found'')]),
         demo_world\<lparr>trace := [Select]\<rparr>)"
    using check_order [of demo_env ?bad _ demo_world 999 888 99]
    by (simp add: py_get_def demo_world_def)
  have 5: "update_appointment demo_env 10 (Dict ?bad) demo_world
      = ((400, JObj [(''success'', JBool False), (''message'', JStr ''Invalid patient_id'')]),
         demo_world\<lparr>trace := [Select, Select]\<rparr>)"
    using check_order [of demo_env ?bad _ demo_world 999 888 10 999]
    by (simp add: py_get_def demo_world_def bind_key_def)
  have 6: "fst (update_appointment demo_env 10 (Dict ?half) demo_world)
      = (400, JObj [(''success'', JBool False), (''message'', JStr ''Invalid doctor_id'')])"
    using check_order [of demo_env ?half _ demo_world 1 888 10 1 888]
    by (simp add: py_get_def demo_world_def bind_key_def)
  from 0 1 2 3 4 5 6 show ?thesis by blast
qed

subsection \<open>What an update changes\<close>

lemma frame_fn_id: "frame_fn data (\<lambda>r. r)"
  by (simp add: frame_fn_def)

lemma frame_fn_comp:
  assumes "frame_fn data f" and "frame_fn data g"
  shows "frame_fn data (\<lambda>r. g (f r))"
  unfolding frame_fn_def
proof (intro allI)
  fix r
  from assms(1) have f: "a_appointment_id (f r) = a_appointment_id r"
    "py_get data ''patient_id'' = JNull \<longrightarrow> a_patient_id (f r) = a_patient_id r"
    "py_get data ''doctor_id'' = JNull \<longrightarrow> a_doctor_id (f r) = a_doctor_id r"
    "py_get data ''appointment_date'' = JNull \<longrightarrow> a_appointment_date (f r) = a_appointment_date r"
    "py_get data ''reason'' = JNull \<longrightarrow> a_reason (f r) = a_reason r"
    "a_patient_id (f r) = a_patient_id r \<or> a_patient_id (f r) \<noteq> None"
    "a_doctor_id (f r) = a_doctor_id r \<or> a_doctor_id (f r) \<noteq> None"
    "a_appointment_date (f r) = a_appointment_date r \<or> a_appointment_date (f r) \<noteq> None"
    "a_reason (f r) = a_reason r \<or> a_reason (f r) \<noteq> None"
    by (simp_all add: frame_fn_def)
  from assms(2) have g: "a_appointment_id (g (f r)) = a_appointment_id (f r)"
    "py_get data ''patient_id'' = JNull \<longrightarrow> a_patient_id (g (f r)) = a_patient_id (f r)"
    "py_get data ''doctor_id'' = JNull \<longrightarrow> a_doctor_id (g (f r)) = a_doctor_id (f r)"
    "py_get data ''appointment_date'' = JNull
       \<longrightarrow> a_appointment_date (g (f r)) = a_appointment_date (f r)"
    "py_get data ''reason'' = JNull \<longrightarrow> a_reason (g (f r)) = a_reason (f r)"
    "a_patient_id (g (f r)) = a_patient_id (f r) \<or> a_patient_id (g (f r)) \<noteq> None"
    "a_doctor_id (g (f r)) = a_doctor_id (f r) \<or> a_doctor_id (g (f r)) \<noteq> None"
    "a_appointment_date (g (f r)) = a_appointment_date (f r)
       \<or> a_appointment_date (g (f r)) \<noteq> None"
    "a_reason (g (f r)) = a_reason (f r) \<or> a_reason (g (f r)) \<noteq> None"
    by (simp_all add: frame_fn_def)
  show "a_appointment_id (g (f r)) = a_appointment_id r
        \<and> (py_get data ''patient_id'' = JNull \<longrightarrow> a_patient_id (g (f r)) = a_patient_id r)
        \<and> (py_get data ''doctor_id'' = JNull \<longrightarrow> a_doctor_id (g (f r)) = a_doctor_id r)
        \<and> (py_get data ''appointment_date'' = JNull
              \<longrightarrow> a_appointment_date (g (f r)) = a_appointment_date r)
        \<and> (py_get data ''reason'' = JNull \<longrightarrow> a_reason (g (f r)) = a_reason r)
        \<and> (a_patient_id (g (f r)) = a_patient_id r \<or> a_patient_id (g (f r)) \<noteq> None)
        \<and> (a_doctor_id (g (f r)) = a_doctor_id r \<or> a_doctor_id (g (f r)) \<noteq> None)
        \<and> (a_appointment_date (g (f r)) = a_appointment_date r
              \<or> a_appointment_date (g (f r)) \<noteq> None)
        \<and> (a_reason (g (f r)) = a_reason r \<or> a_reason (g (f r)) \<noteq> None)"
    using f g by (intro conjI) metis+
qed

lemma frame_rel_same_tables:
  assumes "patients w' = patients w" and "doctors w' = doctors w"
    and "appointments w' = appointments w" and "treatments w' = treatments w"
    and "billing w' = billing w" and "users w' = users w"
  shows "frame_rel i data w w'"
proof -
  have "appointments w' = map (\<lambda>r. if a_appointment_id r = i then (\<lambda>r. r) r else r) (appointments w)"
    using assms(3) by simp
  with frame_fn_id [of data] assms show ?thesis
    unfolding frame_rel_def by blast
qed

lemma frame_rel_trans:
  assumes "frame_rel i data a b" and "frame_rel i data b c"
  shows "frame_rel i data a c"
proof -
  from assms(1) obtain f where f: "frame_fn data f"
    and ab: "appointments b = map (\<lambda>r. if a_appointment_id r = i then f r else r) (appointments a)"
    unfolding frame_rel_def by blast
  from assms(2) obtain g where g: "frame_fn data g"
    and bc: "appointments c = map (\<lambda>r. if a_appointment_id r = i then g r else r) (appointments b)"
    unfolding frame_rel_def by blast
  have idf: "\<And>r. a_appointment_id (f r) = a_appointment_id r"
    using f by (simp add: frame_fn_def)
  have "appointments c =
      map (\<lambda>r. if a_appointment_id r = i then g (f r) else r) (appointments a)"
    unfolding bc ab by (simp add: idf)
  moreover have "frame_fn data (\<lambda>r. g (f r))"
    using f g by (rule frame_fn_comp)
  ultimately show ?thesis
    using assms unfolding frame_rel_def by auto
qed

lemma keeps_ret: "keeps (frame_rel i data) (ret x)"
  by (simp add: keeps_def ret_def frame_rel_same_tables)

lemma keeps_lift: "keeps (frame_rel i data) (lift r)"
  by (simp add: keeps_def lift_def frame_rel_same_tables)

lemma keeps_bnd:
  assumes "keeps (frame_rel i data) m" and "\<And>a. keeps (frame_rel i data) (f a)"
  shows "keeps (frame_rel i data) (bnd m f)"
  unfolding keeps_def
proof
  fix w
  show "frame_rel i data w (snd (bnd m f w))"
  proof (cases "m w")
    case (Pair r w')
    from assms(1) have 1: "frame_rel i data w w'"
      using Pair by (auto simp: keeps_def dest: spec [of _ w])
    show ?thesis
    proof (cases r)
      case (Inl e)
      with Pair 1 show ?thesis by (simp add: bnd_def)
    next
      case (Inr a)
      from assms(2) [of a] have "frame_rel i data w' (snd (f a w'))"
        by (simp add: keeps_def)
      with 1 have "frame_rel i data w (snd (f a w'))"
        by (rule frame_rel_trans)
      with Pair Inr show ?thesis by (simp add: bnd_def)
    qed
  qed
qed

lemma keeps_bnd_lift:
  assumes "\<And>a. r = Inr a \<Longrightarrow> keeps (frame_rel i data) (f a)"
  shows "keeps (frame_rel i data) (bnd (lift r) f)"
proof (cases r)
  case (Inl e)
  then show ?thesis
    by (simp add: keeps_def bnd_def lift_def frame_rel_same_tables)
next
  case (Inr a)
  from assms [OF Inr] show ?thesis
    using Inr by (simp add: keeps_def bnd_def lift_def)
qed

lemma keeps_if:
  assumes "c \<Longrightarrow> keeps (frame_rel i data) m" and "\<not> c \<Longrightarrow> keeps (frame_rel i data) n"
  shows "keeps (frame_rel i data) (if c then m else n)"
  using assms by simp

lemma keeps_get_conn: "keeps (frame_rel i data) get_conn"
  by (simp add: keeps_def get_conn_def frame_rel_same_tables)

lemma keeps_conn_close: "keeps (frame_rel i data) conn_close"
  by (simp add: keeps_def conn_close_def frame_rel_same_tables)

lemma keeps_conn_commit: "keeps (frame_rel i data) conn_commit"
  by (simp add: keeps_def conn_commit_def executed_def frame_rel_same_tables)

lemma keeps_count_appointment: "keeps (frame_rel i data) (count_appointment E p)"
  by (simp add: keeps_def count_appointment_def count_where_def executed_def
        frame_rel_same_tables split: sum.splits)

lemma keeps_reference_missing_patient:
  "keeps (frame_rel i data) (reference_missing (count_patient E) v)"
  unfolding reference_missing_def
proof (intro keeps_if keeps_ret keeps_bnd)
  show "keeps (frame_rel i data) (count_patient E v)"
    by (simp add: keeps_def count_patient_def count_where_def executed_def
          frame_rel_same_tables split: sum.splits)
qed

lemma keeps_reference_missing_doctor:
  "keeps (frame_rel i data) (reference_missing (count_doctor E) v)"
  unfolding reference_missing_def
proof (intro keeps_if keeps_ret keeps_bnd)
  show "keeps (frame_rel i data) (count_doctor E v)"
    by (simp add: keeps_def count_doctor_def count_where_def executed_def
          frame_rel_same_tables split: sum.splits)
qed

lemma keeps_select_appointment: "keeps (frame_rel i data) (select_appointment E p)"
  by (simp add: keeps_def select_appointment_def executed_def frame_rel_same_tables
        split: sum.splits)

lemma bind_key_not_null:
  assumes "p \<noteq> JNull" and "bind_key E p = Inr v"
  shows "v \<noteq> None"
  using assms by (cases p; cases "key_of E p") (auto simp: bind_key_def)

lemma bind_date_not_null:
  assumes "p \<noteq> JNull" and "bind_date E p = Inr v"
  shows "v \<noteq> None"
  using assms by (cases p; cases "date_of E p") (auto simp: bind_date_def)

lemma bind_text_not_null:
  assumes "p \<noteq> JNull" and "bind_text E p = Inr v"
  shows "v \<noteq> None"
  using assms by (cases p; cases "text_of E p") (auto simp: bind_text_def)

lemma assign_frame_fn:
  assumes "assign E s p = Inr f" and "p \<noteq> JNull"
    and "s = Set_patient_id \<longrightarrow> py_get data ''patient_id'' \<noteq> JNull"
    and "s = Set_doctor_id \<longrightarrow> py_get data ''doctor_id'' \<noteq> JNull"
    and "s = Set_appointment_date \<longrightarrow> py_get data ''appointment_date'' \<noteq> JNull"
    and "s = Set_reason \<longrightarrow> py_get data ''reason'' \<noteq> JNull"
  shows "frame_fn data f"
proof (cases s)
  case Set_patient_id
  with assms show ?thesis
    by (auto simp: frame_fn_def split: sum.splits dest: bind_key_not_null)
next
  case Set_doctor_id
  with assms show ?thesis
    by (auto simp: frame_fn_def split: sum.splits dest: bind_key_not_null)
next
  case Set_appointment_date
  with assms show ?thesis
    by (auto simp: frame_fn_def split: sum.splits dest: bind_date_not_null)
next
  case Set_reason
  with assms show ?thesis
    by (auto simp: frame_fn_def split: sum.splits dest: bind_text_not_null)
qed

lemma eval_sets_frame:
  assumes "eval_sets E sets ps = Inr (f, rest)"
    and "\<forall>p \<in> set (take (length sets) ps). p \<noteq> JNull"
    and "Set_patient_id \<in> set sets \<longrightarrow> py_get data ''patient_id'' \<noteq> JNull"
    and "Set_doctor_id \<in> set sets \<longrightarrow> py_get data ''doctor_id'' \<noteq> JNull"
    and "Set_appointment_date \<in> set sets \<longrightarrow> py_get data ''appointment_date'' \<noteq> JNull"
    and "Set_reason \<in> set sets \<longrightarrow> py_get data ''reason'' \<noteq> JNull"
  shows "frame_fn data f \<and> rest = drop (length sets) ps"
  using assms
proof (induction E sets ps arbitrary: f rest rule: eval_sets.induct)
  case (1 E ps)
  then show ?case using frame_fn_id [of data] by auto
next
  case (2 E s ss)
  then show ?case by simp
next
  case (3 E s ss p ps)
  from "3.prems"(1) obtain f1 g where f1: "assign E s p = Inr f1"
    and g: "eval_sets E ss ps = Inr (g, rest)" and f: "f = (\<lambda>r. g (f1 r))"
    by (auto split: sum.splits prod.splits)
  have "frame_fn data f1"
    using f1 "3.prems"(2-6) by (intro assign_frame_fn [of E s p]) auto
  moreover have "frame_fn data g \<and> rest = drop (length ss) ps"
    using f1 g "3.prems"(2-6) by (intro "3.IH" [of f1]) auto
  ultimately show ?case
    unfolding f by (simp add: frame_fn_comp)
qed

lemma keeps_update_where_id:
  assumes "length sets = length ps" and "\<forall>p \<in> set ps. p \<noteq> JNull"
    and "Set_patient_id \<in> set sets \<longrightarrow> py_get data ''patient_id'' \<noteq> JNull"
    and "Set_doctor_id \<in> set sets \<longrightarrow> py_get data ''doctor_id'' \<noteq> JNull"
    and "Set_appointment_date \<in> set sets \<longrightarrow> py_get data ''appointment_date'' \<noteq> JNull"
    and "Set_reason \<in> set sets \<longrightarrow> py_get data ''reason'' \<noteq> JNull"
  shows "keeps (frame_rel i data) (update_where_id E sets (ps @ [JInt i]))"
  unfolding keeps_def
proof
  fix w
  show "frame_rel i data w (snd (update_where_id E sets (ps @ [JInt i]) w))"
  proof (cases "eval_sets E sets (ps @ [JInt i])")
    case (Inl e)
    then show ?thesis
      by (simp add: update_where_id_def executed_def frame_rel_same_tables)
  next
    case (Inr fr)
    obtain f rest where fr: "fr = (f, rest)" by (cases fr)
    have "frame_fn data f \<and> rest = drop (length sets) (ps @ [JInt i])"
      using Inr assms unfolding fr by (intro eval_sets_frame [of E sets]) auto
    then have f: "frame_fn data f" and rest: "rest = [JInt i]"
      using assms(1) by simp_all
    have "snd (update_where_id E sets (ps @ [JInt i]) w) =
        executed Update
          (w\<lparr>appointments := map (\<lambda>r. if a_appointment_id r = i then f r else r) (appointments w)\<rparr>)"
      using Inr unfolding fr rest
      by (simp add: update_where_id_def key_eq_def bind_key_def)
    with f show ?thesis
      unfolding frame_rel_def by (auto simp: executed_def)
  qed
qed

lemma sets_of_body:
  assumes "int_set E Set_patient_id pv ([], []) = Inr q1"
    and "int_set E Set_doctor_id dv q1 = Inr q2"
    and "q4 = raw_set Set_reason rv (raw_set Set_appointment_date av q2)"
  shows "length (fst q4) = length (snd q4)"
    and "\<forall>p \<in> set (snd q4). p \<noteq> JNull"
    and "Set_patient_id \<in> set (fst q4) \<longrightarrow> pv \<noteq> JNull"
    and "Set_doctor_id \<in> set (fst q4) \<longrightarrow> dv \<noteq> JNull"
    and "Set_appointment_date \<in> set (fst q4) \<longrightarrow> av \<noteq> JNull"
    and "Set_reason \<in> set (fst q4) \<longrightarrow> rv \<noteq> JNull"
  using assms
  by (auto simp: int_set_def raw_set_def split: if_splits sum.splits)

lemma bnd_ret: "bnd (ret x) f = f x"
  by (simp add: bnd_def ret_def)

lemma frame_rel_try_except:
  assumes "keeps (frame_rel i data) m"
  shows "frame_rel i data w (snd (try_except m h w))"
proof -
  have "snd (try_except m h w) = snd (m w)"
    by (simp add: try_except_def split: prod.splits sum.splits)
  with assms show ?thesis by (simp add: keeps_def)
qed

lemma update_frame_rel: "frame_rel i data w (snd (update_appointment E i (Dict data) w))"
  unfolding update_appointment_def
  apply (rule frame_rel_try_except)
  apply (simp only: get_json_Dict data_get_Dict bnd_lift_Inr bnd_ret)
  apply (intro keeps_bnd_lift keeps_if keeps_bnd keeps_ret keeps_get_conn keeps_conn_close
      keeps_conn_commit keeps_count_appointment keeps_reference_missing_patient
      keeps_reference_missing_doctor keeps_select_appointment keeps_update_where_id)
       apply (rule sets_of_body(1), assumption, assumption, rule refl)
      apply (rule sets_of_body(2), assumption, assumption, rule refl)
     apply (rule sets_of_body(3), assumption, assumption, rule refl)
    apply (rule sets_of_body(4), assumption, assumption, rule refl)
   apply (rule sets_of_body(5), assumption, assumption, rule refl)
  apply (rule sets_of_body(6), assumption, assumption, rule refl)
  done

lemma py_get_null_absent: "py_get (data(k \<mapsto> JNull)) = py_get (data(k := None))"
  by (rule ext) (simp add: py_get_def)

lemma update_null_absent:
  "update_appointment E i (Dict (data(k \<mapsto> JNull))) w = update_appointment E i (Dict (data(k := None))) w"
  by (simp only: update_appointment_def get_json_Dict data_get_Dict bnd_lift_Inr
        py_get_null_absent)

text \<open>
  Claim C10. After a \<open>PUT /appointments/{id}\<close> (on an existing appointment or not) the
  appointments are the same rows in the same places; rows with another id are
  unchanged; in every row a column whose field is absent or \<open>null\<close> in the body keeps
  its value, and a column that changed holds a value that is not \<open>NULL\<close>; the other
  tables are unchanged. A field that is present with the value \<open>null\<close> is treated as
  an absent field, and a body whose four fields are all \<open>null\<close> or absent is answered
  with 400 and the message \<open>Nothing to update\<close>.
\<close>

theorem update_only_supplied_fields:
  assumes "w' = snd (update_appointment E i (Dict data) w)"
  shows "length (appointments w') = length (appointments w)
    \<and> (\<forall>n < length (appointments w).
          a_appointment_id (appointments w' ! n) = a_appointment_id (appointments w ! n)
          \<and> (a_appointment_id (appointments w ! n) \<noteq> i
                \<longrightarrow> appointments w' ! n = appointments w ! n)
          \<and> (py_get data ''patient_id'' = JNull
                \<longrightarrow> a_patient_id (appointments w' ! n) = a_patient_id (appointments w ! n))
          \<and> (py_get data ''doctor_id'' = JNull
                \<longrightarrow> a_doctor_id (appointments w' ! n) = a_doctor_id (appointments w ! n))
          \<and> (py_get data ''appointment_date'' = JNull
                \<longrightarrow> a_appointment_date (appointments w' ! n)
                    = a_appointment_date (appointments w ! n))
          \<and> (py_get data ''reason'' = JNull
                \<longrightarrow> a_reason (appointments w' ! n) = a_reason (appointments w ! n))
          \<and> (a_patient_id (appointments w' ! n) = a_patient_id (appointments w ! n)
                \<or> a_patient_id (appointments w' ! n) \<noteq> None)
          \<and> (a_doctor_id (appointments w' ! n) = a_doctor_id (appointments w ! n)
                \<or> a_doctor_id (appointments w' ! n) \<noteq> None)
          \<and> (a_appointment_date (appointments w' ! n) = a_appointment_date (appointments w ! n)
                \<or> a_appointment_date (appointments w' ! n) \<noteq> None)
          \<and> (a_reason (appointments w' ! n) = a_reason (appointments w ! n)
                \<or> a_reason (appointments w' ! n) \<noteq> None))
    \<and> patients w' = patients w \<and> doctors w' = doctors w \<and> treatments w' = treatments w
    \<and> billing w' = billing w \<and> users w' = users w
    \<and> update_appointment E i (Dict (data(k \<mapsto> JNull))) w = update_appointment E i (Dict (data(k := None))) w
    \<and> (py_get data ''patient_id'' = JNull \<and> py_get data ''doctor_id'' = JNull
          \<and> py_get data ''appointment_date'' = JNull \<and> py_get data ''reason'' = JNull
        \<longrightarrow> update_appointment E i (Dict data) w = ((400, failure ''Nothing to update''), w))"
proof -
  have rel: "frame_rel i data w w'"
    unfolding assms by (rule update_frame_rel)
  then obtain f where f: "frame_fn data f"
    and ap: "appointments w' =
      map (\<lambda>r. if a_appointment_id r = i then f r else r) (appointments w)"
    unfolding frame_rel_def by blast
  have len: "length (appointments w') = length (appointments w)"
    unfolding ap by simp
  have rows: "\<forall>n < length (appointments w).
          a_appointment_id (appointments w' ! n) = a_appointment_id (appointments w ! n)
          \<and> (a_appointment_id (appointments w ! n) \<noteq> i
                \<longrightarrow> appointments w' ! n = appointments w ! n)
          \<and> (py_get data ''patient_id'' = JNull
                \<longrightarrow> a_patient_id (appointments w' ! n) = a_patient_id (appointments w ! n))
          \<and> (py_get data ''doctor_id'' = JNull
                \<longrightarrow> a_doctor_id (appointments w' ! n) = a_doctor_id (appointments w ! n))
          \<and> (py_get data ''appointment_date'' = JNull
                \<longrightarrow> a_appointment_date (appointments w' ! n)
                    = a_appointment_date (appointments w ! n))
          \<and> (py_get data ''reason'' = JNull
                \<longrightarrow> a_reason (appointments w' ! n) = a_reason (appointments w ! n))
          \<and> (a_patient_id (appointments w' ! n) = a_patient_id (appointments w ! n)
                \<or> a_patient_id (appointments w' ! n) \<noteq> None)
          \<and> (a_doctor_id (appointments w' ! n) = a_doctor_id (appointments w ! n)
                \<or> a_doctor_id (appointments w' ! n) \<noteq> None)
          \<and> (a_appointment_date (appointments w' ! n) = a_appointment_date (appointments w ! n)
                \<or> a_appointment_date (appointments w' ! n) \<noteq> None)
          \<and> (a_reason (appointments w' ! n) = a_reason (appointments w ! n)
                \<or> a_reason (appointments w' ! n) \<noteq> None)"
  proof (intro allI impI)
    fix n
    assume n: "n < length (appointments w)"
    let ?r = "appointments w ! n"
    have nth: "appointments w' ! n = (if a_appointment_id ?r = i then f ?r else ?r)"
      unfolding ap using n by simp
    from f have "a_appointment_id (f ?r) = a_appointment_id ?r
        \<and> (py_get data ''patient_id'' = JNull \<longrightarrow> a_patient_id (f ?r) = a_patient_id ?r)
        \<and> (py_get data ''doctor_id'' = JNull \<longrightarrow> a_doctor_id (f ?r) = a_doctor_id ?r)
        \<and> (py_get data ''appointment_date'' = JNull
              \<longrightarrow> a_appointment_date (f ?r) = a_appointment_date ?r)
        \<and> (py_get data ''reason'' = JNull \<longrightarrow> a_reason (f ?r) = a_reason ?r)
        \<and> (a_patient_id (f ?r) = a_patient_id ?r \<or> a_patient_id (f ?r) \<noteq> None)
        \<and> (a_doctor_id (f ?r) = a_doctor_id ?r \<or> a_doctor_id (f ?r) \<noteq> None)
        \<and> (a_appointment_date (f ?r) = a_appointment_date ?r
              \<or> a_appointment_date (f ?r) \<noteq> None)
        \<and> (a_reason (f ?r) = a_reason ?r \<or> a_reason (f ?r) \<noteq> None)"
      unfolding frame_fn_def by blast
    then show "a_appointment_id (appointments w' ! n) = a_appointment_id (appointments w ! n)
          \<and> (a_appointment_id (appointments w ! n) \<noteq> i
                \<longrightarrow> appointments w' ! n = appointments w ! n)
          \<and> (py_get data ''patient_id'' = JNull
                \<longrightarrow> a_patient_id (appointments w' ! n) = a_patient_id (appointments w ! n))
          \<and> (py_get data ''doctor_id'' = JNull
                \<longrightarrow> a_doctor_id (appointments w' ! n) = a_doctor_id (appointments w ! n))
          \<and> (py_get data ''appointment_date'' = JNull
                \<longrightarrow> a_appointment_date (appointments w' ! n)
                    = a_appointment_date (appointments w ! n))
          \<and> (py_get data ''reason'' = JNull
                \<longrightarrow> a_reason (appointments w' ! n) = a_reason (appointments w ! n))
          \<and> (a_patient_id (appointments w' ! n) = a_patient_id (appointments w ! n)
                \<or> a_patient_id (appointments w' ! n) \<noteq> None)
          \<and> (a_doctor_id (appointments w' ! n) = a_doctor_id (appointments w ! n)
                \<or> a_doctor_id (appointments w' ! n) \<noteq> None)
          \<and> (a_appointment_date (appointments w' ! n) = a_appointment_date (appointments w ! n)
                \<or> a_appointment_date (appointments w' ! n) \<noteq> None)
          \<and> (a_reason (appointments w' ! n) = a_reason (appointments w ! n)
                \<or> a_reason (appointments w' ! n) \<noteq> None)"
      unfolding nth by (cases "a_appointment_id ?r = i") simp_all
  qed
  have others: "patients w' = patients w" "doctors w' = doctors w"
      "treatments w' = treatments w" "billing w' = billing w" "users w' = users w"
    using rel unfolding frame_rel_def by simp_all
  show ?thesis
    apply (intro conjI len rows others update_null_absent)
    apply (simp add: update_appointment_def act_defs int_set_def raw_set_def)
    done
qed

theorem update_only_supplied_fields_witness:
  "appointments (snd (update_appointment demo_env 10 (Dict [''reason'' \<mapsto> JStr ''New'']) demo_world))
     = [\<lparr>a_appointment_id = 10, a_patient_id = Some 1, a_doctor_id = Some 2,
         a_appointment_date = Some 5, a_reason = Some ''New''\<rparr>]
   \<and> a_patient_id (appointments
        (snd (update_appointment demo_env 10 (Dict [''reason'' \<mapsto> JStr ''New'']) demo_world)) ! 0)
     = a_patient_id (appointments demo_world ! 0)
   \<and> patients (snd (update_appointment demo_env 10 (Dict [''reason'' \<mapsto> JStr ''New'']) demo_world))
     = patients demo_world"
proof -
  let ?data = "[''reason'' \<mapsto> JStr ''New''] :: int body"
  let ?w' = "snd (update_appointment demo_env 10 (Dict ?data) demo_world)"
  note t = update_only_supplied_fields [OF refl, of demo_env 10 ?data demo_world]
  from t have "\<forall>n < length (appointments demo_world).
      py_get ?data ''patient_id'' = JNull
        \<longrightarrow> a_patient_id (appointments ?w' ! n) = a_patient_id (appointments demo_world ! n)"
    by blast
  then have 1: "a_patient_id (appointments ?w' ! 0) = a_patient_id (appointments demo_world ! 0)"
    by (simp add: py_get_def demo_world_def)
  from t have 2: "patients ?w' = patients demo_world"
    by blast
  have 3: "appointments ?w'
     = [\<lparr>a_appointment_id = 10, a_patient_id = Some 1, a_doctor_id = Some 2,
         a_appointment_date = Some 5, a_reason = Some ''New''\<rparr>]"
    by (simp add: update_appointment_def act_defs py_get_def int_set_def raw_set_def
          count_appointment_def count_where_int reference_missing_def update_where_id_def
          key_eq_def bind_key_def bind_text_def select_appointment_def appt_join_def
          row_json_def demo_world_def)
  from 1 2 3 show ?thesis by blast
qed

subsection \<open>The list endpoints return the filtered rows in order\<close>

lemma mset_order_desc: "mset (order_desc k xs) = mset xs"
  by (simp add: order_desc_def)

lemma sorted_order_desc: "sorted_wrt (\<lambda>x y. k y \<le> k x) (order_desc k xs)"
proof -
  have "sorted (map k (sort_key k xs))" by simp
  then have "sorted_wrt (\<lambda>x y. k x \<le> k y) (sort_key k xs)"
    by (simp add: sorted_wrt_map)
  then show ?thesis
    by (simp add: order_desc_def sorted_wrt_rev)
qed

lemma newest_first_iff: "newest_first x y \<longleftrightarrow> y \<le> x"
  by (auto simp: newest_first_def less_eq_prod_def)

lemma eval_where_snoc:
  assumes "length cs = length ps" and "eval_where sem cs ps = Inr P" and "sem c p = Inr G"
  shows "\<exists>P'. eval_where sem (cs @ [c]) (ps @ [p]) = Inr P' \<and> (\<forall>r. P' r \<longleftrightarrow> P r \<and> G r)"
  using assms
proof (induction cs ps arbitrary: P rule: list_induct2)
  case Nil
  then show ?case by auto
next
  case (Cons x xs y ys)
  from Cons.prems(1) obtain f g where f: "sem x y = Inr f"
    and g: "eval_where sem xs ys = Inr g" and P: "P = (\<lambda>r. f r \<and> g r)"
    by (auto split: sum.splits)
  from Cons.IH [OF g Cons.prems(2)] obtain g' where
    g': "eval_where sem (xs @ [c]) (ys @ [p]) = Inr g'" and eq: "\<forall>r. g' r \<longleftrightarrow> g r \<and> G r"
    by blast
  have "eval_where sem ((x # xs) @ [c]) ((y # ys) @ [p]) = Inr (\<lambda>r. f r \<and> g' r)"
    using f g' by simp
  moreover have "\<forall>r. (f r \<and> g' r) \<longleftrightarrow> P r \<and> G r"
    using eq unfolding P by blast
  ultimately show ?case by blast
qed

lemma int_filter_step:
  assumes "int_filter_value v n"
    and "length (fst q) = length (snd q)"
    and "eval_where sem (fst q) (snd q) = Inr P"
    and "\<And>k. sem c (JInt k) = Inr (G k)"
  shows "\<exists>q' P'. int_filter E c v q = Inr q' \<and> length (fst q') = length (snd q')
      \<and> eval_where sem (fst q') (snd q') = Inr P'
      \<and> (\<forall>r. P' r \<longleftrightarrow> P r \<and> (case n of None \<Rightarrow> True | Some k \<Rightarrow> G k r))"
proof (cases "supplied v")
  case None
  then have "int_filter E c v q = Inr q" and "n = None"
    using assms(1) by (auto simp: supplied_def int_filter_def int_filter_value_def
        split: option.splits if_splits)
  with assms(2,3) show ?thesis by auto
next
  case (Some s)
  then have v: "v = Some s" and s: "s \<noteq> []"
    by (auto simp: supplied_def split: option.splits if_splits)
  from Some assms(1) obtain k where k: "int_literal s = Some k" and n: "n = Some k"
    by (auto simp: int_filter_value_def)
  have q': "int_filter E c v q = Inr (fst q @ [c], snd q @ [JInt k])"
    using v s k by (simp add: int_filter_def)
  from eval_where_snoc [OF assms(2,3) assms(4) [of k]] obtain P' where
    "eval_where sem (fst q @ [c]) (snd q @ [JInt k]) = Inr P'" and "\<forall>r. P' r \<longleftrightarrow> P r \<and> G k r"
    by blast
  with q' n assms(2) show ?thesis by auto
qed

lemma str_filter_step:
  assumes "case supplied v of None \<Rightarrow> x = None
           | Some s \<Rightarrow> (\<exists>y. x = Some y \<and> sem c (JStr s) = Inr (G y))"
    and "length (fst q) = length (snd q)"
    and "eval_where sem (fst q) (snd q) = Inr P"
  shows "\<exists>P'. length (fst (str_filter c v q)) = length (snd (str_filter c v q))
      \<and> eval_where sem (fst (str_filter c v q)) (snd (str_filter c v q)) = Inr P'
      \<and> (\<forall>r. P' r \<longleftrightarrow> P r \<and> (case x of None \<Rightarrow> True | Some y \<Rightarrow> G y r))"
proof (cases "supplied v")
  case None
  then have "str_filter c v q = q" and "x = None"
    using assms(1) by (auto simp: supplied_def str_filter_def split: option.splits if_splits)
  with assms(2,3) show ?thesis by auto
next
  case (Some s)
  then have v: "v = Some s" and s: "s \<noteq> []"
    by (auto simp: supplied_def split: option.splits if_splits)
  from Some assms(1) obtain y where x: "x = Some y" and sem: "sem c (JStr s) = Inr (G y)"
    by auto
  have q': "str_filter c v q = (fst q @ [c], snd q @ [JStr s])"
    using v s by (simp add: str_filter_def)
  from eval_where_snoc [OF assms(2,3) sem] obtain P' where
    "eval_where sem (fst q @ [c]) (snd q @ [JStr s]) = Inr P'" and "\<forall>r. P' r \<longleftrightarrow> P r \<and> G y r"
    by blast
  with q' x assms(2) show ?thesis by auto
qed

lemma date_filter_ge:
  assumes "date_filter_value E v x"
  shows "case supplied v of None \<Rightarrow> x = None
         | Some s \<Rightarrow> (\<exists>y. x = Some y \<and> date_ge E col (JStr s)
               = Inr (\<lambda>r. case col r of None \<Rightarrow> False | Some z \<Rightarrow> y \<le> z))"
  using assms
  by (auto simp: date_filter_value_def date_ge_def bind_date_def split: option.splits)

lemma date_filter_le:
  assumes "date_filter_value E v x"
  shows "case supplied v of None \<Rightarrow> x = None
         | Some s \<Rightarrow> (\<exists>y. x = Some y \<and> date_le E col (JStr s)
               = Inr (\<lambda>r. case col r of None \<Rightarrow> False | Some z \<Rightarrow> z \<le> y))"
  using assms
  by (auto simp: date_filter_value_def date_le_def bind_date_def split: option.splits)

lemma text_filter_eq:
  "case supplied v of None \<Rightarrow> supplied v = None
   | Some s \<Rightarrow> (\<exists>y. supplied v = Some y \<and> text_eq_pred E col (JStr s)
         = Inr (\<lambda>r. case col r of None \<Rightarrow> False | Some t \<Rightarrow> text_eq E t y))"
  by (auto simp: text_eq_pred_def bind_text_def split: option.splits)

lemma key_eq_int: "key_eq E col (JInt k) = Inr (\<lambda>r. col r = Some k)"
  by (simp add: key_eq_def bind_key_def)

lemma join_ignores_connection:
  "appt_join (w\<lparr>open_conns := n, scope_identity := x\<rparr>) = appt_join w"
  "bill_join (w\<lparr>open_conns := n, scope_identity := x\<rparr>) = bill_join w"
  by (simp_all add: appt_join_def bill_join_def cong: if_cong)

lemma get_appointments_rows:
  assumes "int_filter_value (args ''patient_id'') pid"
    and "int_filter_value (args ''doctor_id'') did"
    and "date_filter_value E (args ''from'') dfrom"
    and "date_filter_value E (args ''to'') dto"
  shows "get_appointments E args w =
    ((200, JArr (map (appointment_row_to_json E)
       (map appt_select
          (order_desc appt_key (filter (appt_matches pid did dfrom dto) (appt_join w)))))),
     w\<lparr>scope_identity := None, trace := trace w @ [Select]\<rparr>)"
proof -
  let ?sem = "appt_pred E"
  have e0: "eval_where ?sem (fst ([], [])) (snd ([], [])) = Inr (\<lambda>r. True)" by simp
  from int_filter_step [OF assms(1) _ e0, where c = A_patient_id_eq
      and G = "\<lambda>k (a, _, _). a_patient_id a = Some k" and E = E]
  obtain q1 P1 where q1: "int_filter E A_patient_id_eq (args ''patient_id'') ([], []) = Inr q1"
    and l1: "length (fst q1) = length (snd q1)"
    and e1: "eval_where ?sem (fst q1) (snd q1) = Inr P1"
    and p1: "\<forall>r. P1 r \<longleftrightarrow> True \<and> (case pid of None \<Rightarrow> True
                | Some k \<Rightarrow> (case r of (a, _, _) \<Rightarrow> a_patient_id a = Some k))"
    by (auto simp: key_eq_int split_def)
  from int_filter_step [OF assms(2) l1 e1, where c = A_doctor_id_eq
      and G = "\<lambda>k (a, _, _). a_doctor_id a = Some k" and E = E]
  obtain q2 P2 where q2: "int_filter E A_doctor_id_eq (args ''doctor_id'') q1 = Inr q2"
    and l2: "length (fst q2) = length (snd q2)"
    and e2: "eval_where ?sem (fst q2) (snd q2) = Inr P2"
    and p2: "\<forall>r. P2 r \<longleftrightarrow> P1 r \<and> (case did of None \<Rightarrow> True
                | Some k \<Rightarrow> (case r of (a, _, _) \<Rightarrow> a_doctor_id a = Some k))"
    by (auto simp: key_eq_int split_def)
  let ?q3 = "str_filter A_appointment_date_ge (args ''from'') q2"
  have h3: "case supplied (args ''from'') of None \<Rightarrow> dfrom = None
      | Some s \<Rightarrow> (\<exists>y. dfrom = Some y \<and> appt_pred E A_appointment_date_ge (JStr s)
          = Inr (\<lambda>r. case (case r of (a, _, _) \<Rightarrow> a_appointment_date a) of
                        None \<Rightarrow> False | Some z \<Rightarrow> y \<le> z))"
    unfolding appt_pred.simps by (rule date_filter_ge [OF assms(3)])
  from str_filter_step [OF h3 l2 e2]
  obtain P3 where l3: "length (fst ?q3) = length (snd ?q3)"
    and e3: "eval_where ?sem (fst ?q3) (snd ?q3) = Inr P3"
    and p3: "\<forall>r. P3 r \<longleftrightarrow> P2 r \<and> (case dfrom of None \<Rightarrow> True
                | Some y \<Rightarrow> (case (case r of (a, _, _) \<Rightarrow> a_appointment_date a) of
                              None \<Rightarrow> False | Some z \<Rightarrow> y \<le> z))"
    by blast
  let ?q4 = "str_filter A_appointment_date_le (args ''to'') ?q3"
  have h4: "case supplied (args ''to'') of None \<Rightarrow> dto = None
      | Some s \<Rightarrow> (\<exists>y. dto = Some y \<and> appt_pred E A_appointment_date_le (JStr s)
          = Inr (\<lambda>r. case (case r of (a, _, _) \<Rightarrow> a_appointment_date a) of
                        None \<Rightarrow> False | Some z \<Rightarrow> z \<le> y))"
    unfolding appt_pred.simps by (rule date_filter_le [OF assms(4)])
  from str_filter_step [OF h4 l3 e3]
  obtain P4 where e4: "eval_where ?sem (fst ?q4) (snd ?q4) = Inr P4"
    and p4: "\<forall>r. P4 r \<longleftrightarrow> P3 r \<and> (case dto of None \<Rightarrow> True
                | Some y \<Rightarrow> (case (case r of (a, _, _) \<Rightarrow> a_appointment_date a) of
                              None \<Rightarrow> False | Some z \<Rightarrow> z \<le> y))"
    by blast
  have "\<forall>r. P4 r \<longleftrightarrow> appt_matches pid did dfrom dto r"
    using p1 p2 p3 p4 by (auto simp: appt_matches_def cong: option.case_cong)
  then have flt: "filter P4 (appt_join w) = filter (appt_matches pid did dfrom dto) (appt_join w)"
    by (intro filter_cong) auto
  show ?thesis
    using q1 q2 e4 flt
    by (simp add: get_appointments_def act_defs select_appointments_def
          join_ignores_connection)
qed

lemma get_treatments_rows:
  assumes "int_filter_value (args ''appointment_id'') aid"
  shows "get_treatments E args w =
    ((200, JArr (map treatment_row_to_json
       (order_desc t_treatment_id (filter (treat_matches aid) (treatments w))))),
     w\<lparr>scope_identity := None, trace := trace w @ [Select]\<rparr>)"
proof -
  let ?sem = "treat_pred E"
  have e0: "eval_where ?sem (fst ([], [])) (snd ([], [])) = Inr (\<lambda>r. True)" by simp
  from int_filter_step [OF assms(1) _ e0, where c = T_appointment_id_eq
      and G = "\<lambda>k t. t_appointment_id t = Some k" and E = E]
  obtain q1 P1 where q1: "int_filter E T_appointment_id_eq (args ''appointment_id'') ([], []) = Inr q1"
    and e1: "eval_where ?sem (fst q1) (snd q1) = Inr P1"
    and p1: "\<forall>r. P1 r \<longleftrightarrow> True \<and> (case aid of None \<Rightarrow> True
                | Some k \<Rightarrow> t_appointment_id r = Some k)"
    by (auto simp: key_eq_int)
  have "\<forall>r. P1 r \<longleftrightarrow> treat_matches aid r"
    using p1 by (auto simp: treat_matches_def)
  then have flt: "filter P1 (treatments w) = filter (treat_matches aid) (treatments w)"
    by (intro filter_cong) auto
  show ?thesis
    using q1 e1 flt
    by (simp add: get_treatments_def act_defs select_treatments_def)
qed

lemma get_billing_rows:
  assumes "int_filter_value (args ''patient_id'') pid"
  shows "get_billing E args w =
    ((200, JArr (map (billing_row_to_json E)
       (order_desc bill_key
          (filter (bill_matches E pid (supplied (args ''status''))) (bill_join w))))),
     w\<lparr>scope_identity := None, trace := trace w @ [Select]\<rparr>)"
proof -
  let ?sem = "bill_pred E"
  have e0: "eval_where ?sem (fst ([], [])) (snd ([], [])) = Inr (\<lambda>r. True)" by simp
  from int_filter_step [OF assms(1) _ e0, where c = B_patient_id_eq
      and G = "\<lambda>k (b, _). b_patient_id b = Some k" and E = E]
  obtain q1 P1 where q1: "int_filter E B_patient_id_eq (args ''patient_id'') ([], []) = Inr q1"
    and l1: "length (fst q1) = length (snd q1)"
    and e1: "eval_where ?sem (fst q1) (snd q1) = Inr P1"
    and p1: "\<forall>r. P1 r \<longleftrightarrow> True \<and> (case pid of None \<Rightarrow> True
                | Some k \<Rightarrow> (case r of (b, _) \<Rightarrow> b_patient_id b = Some k))"
    by (auto simp: key_eq_int split_def)
  let ?q2 = "str_filter B_payment_status_eq (args ''status'') q1"
  have h2: "case supplied (args ''status'') of None \<Rightarrow> supplied (args ''status'') = None
      | Some s \<Rightarrow> (\<exists>y. supplied (args ''status'') = Some y
          \<and> bill_pred E B_payment_status_eq (JStr s)
          = Inr (\<lambda>r. case (case r of (b, _) \<Rightarrow> b_payment_status b) of
                        None \<Rightarrow> False | Some t \<Rightarrow> text_eq E t y))"
    unfolding bill_pred.simps by (rule text_filter_eq)
  from str_filter_step [OF h2 l1 e1]
  obtain P2 where e2: "eval_where ?sem (fst ?q2) (snd ?q2) = Inr P2"
    and p2: "\<forall>r. P2 r \<longleftrightarrow> P1 r \<and> (case supplied (args ''status'') of None \<Rightarrow> True
                | Some y \<Rightarrow> (case (case r of (b, _) \<Rightarrow> b_payment_status b) of
                              None \<Rightarrow> False | Some t \<Rightarrow> text_eq E t y))"
    by blast
  have "\<forall>r. P2 r \<longleftrightarrow> bill_matches E pid (supplied (args ''status'')) r"
    using p1 p2 by (auto simp: bill_matches_def cong: option.case_cong)
  then have flt: "filter P2 (bill_join w)
      = filter (bill_matches E pid (supplied (args ''status''))) (bill_join w)"
    by (intro filter_cong) auto
  show ?thesis
    using q1 e2 flt
    by (simp add: get_billing_def act_defs select_billing_def join_ignores_connection)
qed

lemma guard_concat:
  "(if g then concat (map (\<lambda>d. if h d then [f d] else []) ds) else [])
     = concat (map (\<lambda>d. if g \<and> h d then [f d] else []) ds)"
  by (induction ds) auto

lemma filter_guard: "filter P (if c then [x] else []) = (if c \<and> P x then [x] else [])"
  by (cases c; cases "P x") simp_all

lemma appt_join_rows:
  "filter P (appt_join w) =
     [(a, p, d). a \<leftarrow> appointments w, p \<leftarrow> patients w, d \<leftarrow> doctors w,
        (a_patient_id a = Some (p_patient_id p) \<and> a_doctor_id a = Some (d_doctor_id d))
        \<and> P (a, p, d)]"
  by (simp add: appt_join_def guard_concat filter_concat comp_def filter_guard
        del: filter.simps)

lemma bill_join_rows:
  "filter P (bill_join w) =
     [(b, p). b \<leftarrow> billing w, p \<leftarrow> patients w,
        b_patient_id b = Some (p_patient_id p) \<and> P (b, p)]"
  by (simp add: bill_join_def filter_concat comp_def filter_guard del: filter.simps)

lemma appointment_json:
  "(\<lambda>t. appointment_row_to_json E (appt_select t)) = (\<lambda>(a, p, d). JObj
      [(''appointment_id'', JInt (a_appointment_id a)),
       (''appointment_date'',
          JStr (case a_appointment_date a of None \<Rightarrow> ''None'' | Some x \<Rightarrow> date_str E x)),
       (''reason'', case a_reason a of None \<Rightarrow> JNull | Some s \<Rightarrow> JStr s),
       (''patient_id'', JInt (p_patient_id p)),
       (''patient_name'', case p_name p of None \<Rightarrow> JNull | Some s \<Rightarrow> JStr s),
       (''doctor_id'', JInt (d_doctor_id d)),
       (''doctor_name'', case d_name d of None \<Rightarrow> JNull | Some s \<Rightarrow> JStr s)])"
  by (rule ext)
    (simp add: appointment_row_to_json_def appt_select_def jtext_def py_str_def split_def)

lemma treatment_json:
  "treatment_row_to_json = (\<lambda>t. JObj
      [(''treatment_id'', JInt (t_treatment_id t)),
       (''appointment_id'', case t_appointment_id t of None \<Rightarrow> JNull | Some n \<Rightarrow> JInt n),
       (''diagnosis'', case t_diagnosis t of None \<Rightarrow> JNull | Some s \<Rightarrow> JStr s),
       (''prescription'', case t_prescription t of None \<Rightarrow> JNull | Some s \<Rightarrow> JStr s),
       (''notes'', case t_notes t of None \<Rightarrow> JNull | Some s \<Rightarrow> JStr s)])"
  by (rule ext) (simp add: treatment_row_to_json_def jtext_def jint_def)

lemma billing_json:
  "billing_row_to_json E = (\<lambda>(b, p). JObj
      [(''bill_id'', JInt (b_bill_id b)),
       (''patient_id'', case b_patient_id b of None \<Rightarrow> JNull | Some n \<Rightarrow> JInt n),
       (''patient_name'', case p_name p of None \<Rightarrow> JNull | Some s \<Rightarrow> JStr s),
       (''treatment_id'', case b_treatment_id b of None \<Rightarrow> JNull | Some n \<Rightarrow> JInt n),
       (''amount'', case b_amount b of None \<Rightarrow> JNull | Some m \<Rightarrow> JFloat (dec_float E m)),
       (''payment_status'', case b_payment_status b of None \<Rightarrow> JNull | Some s \<Rightarrow> JStr s),
       (''billing_date'',
          JStr (case b_billing_date b of None \<Rightarrow> ''None'' | Some x \<Rightarrow> date_str E x))])"
  by (rule ext)
    (simp add: billing_row_to_json_def jtext_def jint_def py_str_def split_def
      split: option.splits)

lemma appt_order:
  "(\<lambda>x y. appt_key y \<le> appt_key x) =
     (\<lambda>(a, _, _) (a', _, _). newest_first (a_appointment_date a, a_appointment_id a)
        (a_appointment_date a', a_appointment_id a'))"
  by (intro ext) (simp add: newest_first_iff appt_key_def split_def)

lemma bill_order:
  "(\<lambda>x y. bill_key y \<le> bill_key x) =
     (\<lambda>(b, _) (b', _). newest_first (b_billing_date b, b_bill_id b)
        (b_billing_date b', b_bill_id b'))"
  by (intro ext) (simp add: newest_first_iff bill_key_def split_def)

text \<open>
  Claim C1. For every combination of valid filters (each one absent, empty or supplied)
  the list endpoints answer 200 with a list of JSON objects, one for each row of a
  list \<open>rows\<close> that holds exactly the rows of the resource that satisfy all the
  supplied predicates, each as often as it occurs, in the fixed order.

  The rows of \<open>/appointments\<close> are the appointments with their patient and their
  doctor (an appointment without one of them has no row), ordered by date descending,
  then id descending. The rows of \<open>/treatments\<close> are the treatments, ordered by id
  descending. The rows of \<open>/billing\<close> are the bills with their patient, ordered by
  billing date descending, then id descending. \<open>NULL\<close> is the lowest date. A filter
  that is absent or empty adds no predicate.
\<close>

theorem list_endpoints_filtered_sorted:
  "(int_filter_value (args ''patient_id'') pid \<and> int_filter_value (args ''doctor_id'') did
      \<and> date_filter_value E (args ''from'') dfrom \<and> date_filter_value E (args ''to'') dto
    \<longrightarrow> (\<exists>rows.
          get_appointments E args w =
            ((200, JArr (map (\<lambda>(a, p, d). JObj
                [(''appointment_id'', JInt (a_appointment_id a)),
                 (''appointment_date'',
                    JStr (case a_appointment_date a of None \<Rightarrow> ''None''
                          | Some x \<Rightarrow> date_str E x)),
                 (''reason'', case a_reason a of None \<Rightarrow> JNull | Some s \<Rightarrow> JStr s),
                 (''patient_id'', JInt (p_patient_id p)),
                 (''patient_name'', case p_name p of None \<Rightarrow> JNull | Some s \<Rightarrow> JStr s),
                 (''doctor_id'', JInt (d_doctor_id d)),
                 (''doctor_name'', case d_name d of None \<Rightarrow> JNull | Some s \<Rightarrow> JStr s)])
               rows)),
             w\<lparr>scope_identity := None, trace := trace w @ [Select]\<rparr>)
          \<and> mset rows =
              mset [(a, p, d). a \<leftarrow> appointments w, p \<leftarrow> patients w, d \<leftarrow> doctors w,
                      (a_patient_id a = Some (p_patient_id p)
                        \<and> a_doctor_id a = Some (d_doctor_id d))
                      \<and> appt_matches pid did dfrom dto (a, p, d)]
          \<and> sorted_wrt
               (\<lambda>(a, _, _) (a', _, _).
                  newest_first (a_appointment_date a, a_appointment_id a)
                    (a_appointment_date a', a_appointment_id a'))
               rows))
   \<and> (int_filter_value (args ''appointment_id'') aid
    \<longrightarrow> (\<exists>rows.
          get_treatments E args w =
            ((200, JArr (map (\<lambda>t. JObj
                [(''treatment_id'', JInt (t_treatment_id t)),
                 (''appointment_id'',
                    case t_appointment_id t of None \<Rightarrow> JNull | Some n \<Rightarrow> JInt n),
                 (''diagnosis'', case t_diagnosis t of None \<Rightarrow> JNull | Some s \<Rightarrow> JStr s),
                 (''prescription'',
                    case t_prescription t of None \<Rightarrow> JNull | Some s \<Rightarrow> JStr s),
                 (''notes'', case t_notes t of None \<Rightarrow> JNull | Some s \<Rightarrow> JStr s)])
               rows)),
             w\<lparr>scope_identity := None, trace := trace w @ [Select]\<rparr>)
          \<and> mset rows = mset (filter (treat_matches aid) (treatments w))
          \<and> sorted_wrt (\<lambda>t t'. t_treatment_id t' \<le> t_treatment_id t) rows))
   \<and> (int_filter_value (args ''patient_id'') pid
    \<longrightarrow> (\<exists>rows.
          get_billing E args w =
            ((200, JArr (map (\<lambda>(b, p). JObj
                [(''bill_id'', JInt (b_bill_id b)),
                 (''patient_id'', case b_patient_id b of None \<Rightarrow> JNull | Some n \<Rightarrow> JInt n),
                 (''patient_name'', case p_name p of None \<Rightarrow> JNull | Some s \<Rightarrow> JStr s),
                 (''treatment_id'',
                    case b_treatment_id b of None \<Rightarrow> JNull | Some n \<Rightarrow> JInt n),
                 (''amount'',
                    case b_amount b of None \<Rightarrow> JNull | Some m \<Rightarrow> JFloat (dec_float E m)),
                 (''payment_status'',
                    case b_payment_status b of None \<Rightarrow> JNull | Some s \<Rightarrow> JStr s),
                 (''billing_date'',
                    JStr (case b_billing_date b of None \<Rightarrow> ''None''
                          | Some x \<Rightarrow> date_str E x))])
               rows)),
             w\<lparr>scope_identity := None, trace := trace w @ [Select]\<rparr>)
          \<and> mset rows =
              mset [(b, p). b \<leftarrow> billing w, p \<leftarrow> patients w,
                      b_patient_id b = Some (p_patient_id p)
                      \<and> bill_matches E pid (supplied (args ''status'')) (b, p)]
          \<and> sorted_wrt
               (\<lambda>(b, _) (b', _).
                  newest_first (b_billing_date b, b_bill_id b) (b_billing_date b', b_bill_id b'))
               rows))"
proof (intro conjI impI)
  assume a: "int_filter_value (args ''patient_id'') pid \<and> int_filter_value (args ''doctor_id'') did
      \<and> date_filter_value E (args ''from'') dfrom \<and> date_filter_value E (args ''to'') dto"
  let ?rows = "order_desc appt_key (filter (appt_matches pid did dfrom dto) (appt_join w))"
  from a have "get_appointments E args w =
      ((200, JArr (map (appointment_row_to_json E) (map appt_select ?rows))),
       w\<lparr>scope_identity := None, trace := trace w @ [Select]\<rparr>)"
    by (intro get_appointments_rows) simp_all
  then have "get_appointments E args w =
      ((200, JArr (map (\<lambda>t. appointment_row_to_json E (appt_select t)) ?rows)),
       w\<lparr>scope_identity := None, trace := trace w @ [Select]\<rparr>)"
    by (simp add: o_def)
  then have 1: "get_appointments E args w =
      ((200, JArr (map (\<lambda>(a, p, d). JObj
          [(''appointment_id'', JInt (a_appointment_id a)),
           (''appointment_date'',
              JStr (case a_appointment_date a of None \<Rightarrow> ''None''
                    | Some x \<Rightarrow> date_str E x)),
           (''reason'', case a_reason a of None \<Rightarrow> JNull | Some s \<Rightarrow> JStr s),
           (''patient_id'', JInt (p_patient_id p)),
           (''patient_name'', case p_name p of None \<Rightarrow> JNull | Some s \<Rightarrow> JStr s),
           (''doctor_id'', JInt (d_doctor_id d)),
           (''doctor_name'', case d_name d of None \<Rightarrow> JNull | Some s \<Rightarrow> JStr s)])
         ?rows)),
       w\<lparr>scope_identity := None, trace := trace w @ [Select]\<rparr>)"
    unfolding appointment_json .
  have 2: "mset ?rows =
      mset [(a, p, d). a \<leftarrow> appointments w, p \<leftarrow> patients w, d \<leftarrow> doctors w,
              (a_patient_id a = Some (p_patient_id p) \<and> a_doctor_id a = Some (d_doctor_id d))
              \<and> appt_matches pid did dfrom dto (a, p, d)]"
    unfolding mset_order_desc appt_join_rows ..
  have 3: "sorted_wrt
      (\<lambda>(a, _, _) (a', _, _).
         newest_first (a_appointment_date a, a_appointment_id a)
           (a_appointment_date a', a_appointment_id a'))
      ?rows"
    using sorted_order_desc [of appt_key] unfolding appt_order .
  from 1 2 3 show "\<exists>rows.
      get_appointments E args w =
        ((200, JArr (map (\<lambda>(a, p, d). JObj
            [(''appointment_id'', JInt (a_appointment_id a)),
             (''appointment_date'',
                JStr (case a_appointment_date a of None \<Rightarrow> ''None''
                      | Some x \<Rightarrow> date_str E x)),
             (''reason'', case a_reason a of None \<Rightarrow> JNull | Some s \<Rightarrow> JStr s),
             (''patient_id'', JInt (p_patient_id p)),
             (''patient_name'', case p_name p of None \<Rightarrow> JNull | Some s \<Rightarrow> JStr s),
             (''doctor_id'', JInt (d_doctor_id d)),
             (''doctor_name'', case d_name d of None \<Rightarrow> JNull | Some s \<Rightarrow> JStr s)])
           rows)),
         w\<lparr>scope_identity := None, trace := trace w @ [Select]\<rparr>)
      \<and> mset rows =
          mset [(a, p, d). a \<leftarrow> appointments w, p \<leftarrow> patients w, d \<leftarrow> doctors w,
                  (a_patient_id a = Some (p_patient_id p)
                    \<and> a_doctor_id a = Some (d_doctor_id d))
                  \<and> appt_matches pid did dfrom dto (a, p, d)]
      \<and> sorted_wrt
           (\<lambda>(a, _, _) (a', _, _).
              newest_first (a_appointment_date a, a_appointment_id a)
                (a_appointment_date a', a_appointment_id a'))
           rows"
    by blast
next
  assume a: "int_filter_value (args ''appointment_id'') aid"
  let ?rows = "order_desc t_treatment_id (filter (treat_matches aid) (treatments w))"
  have "get_treatments E args w =
      ((200, JArr (map treatment_row_to_json ?rows)),
       w\<lparr>scope_identity := None, trace := trace w @ [Select]\<rparr>)"
    using a by (rule get_treatments_rows)
  then have 1: "get_treatments E args w =
      ((200, JArr (map (\<lambda>t. JObj
          [(''treatment_id'', JInt (t_treatment_id t)),
           (''appointment_id'',
              case t_appointment_id t of None \<Rightarrow> JNull | Some n \<Rightarrow> JInt n),
           (''diagnosis'', case t_diagnosis t of None \<Rightarrow> JNull | Some s \<Rightarrow> JStr s),
           (''prescription'',
              case t_prescription t of None \<Rightarrow> JNull | Some s \<Rightarrow> JStr s),
           (''notes'', case t_notes t of None \<Rightarrow> JNull | Some s \<Rightarrow> JStr s)])
         ?rows)),
       w\<lparr>scope_identity := None, trace := trace w @ [Select]\<rparr>)"
    unfolding treatment_json .
  have 2: "mset ?rows = mset (filter (treat_matches aid) (treatments w))"
    by (rule mset_order_desc)
  have 3: "sorted_wrt (\<lambda>t t'. t_treatment_id t' \<le> t_treatment_id t) ?rows"
    by (rule sorted_order_desc)
  from 1 2 3 show "\<exists>rows.
      get_treatments E args w =
        ((200, JArr (map (\<lambda>t. JObj
            [(''treatment_id'', JInt (t_treatment_id t)),
             (''appointment_id'',
                case t_appointment_id t of None \<Rightarrow> JNull | Some n \<Rightarrow> JInt n),
             (''diagnosis'', case t_diagnosis t of None \<Rightarrow> JNull | Some s \<Rightarrow> JStr s),
             (''prescription'',
                case t_prescription t of None \<Rightarrow> JNull | Some s \<Rightarrow> JStr s),
             (''notes'', case t_notes t of None \<Rightarrow> JNull | Some s \<Rightarrow> JStr s)])
           rows)),
         w\<lparr>scope_identity := None, trace := trace w @ [Select]\<rparr>)
      \<and> mset rows = mset (filter (treat_matches aid) (treatments w))
      \<and> sorted_wrt (\<lambda>t t'. t_treatment_id t' \<le> t_treatment_id t) rows"
    by blast
next
  assume a: "int_filter_value (args ''patient_id'') pid"
  let ?rows = "order_desc bill_key
      (filter (bill_matches E pid (supplied (args ''status''))) (bill_join w))"
  have "get_billing E args w =
      ((200, JArr (map (billing_row_to_json E) ?rows)),
       w\<lparr>scope_identity := None, trace := trace w @ [Select]\<rparr>)"
    using a by (rule get_billing_rows)
  then have 1: "get_billing E args w =
      ((200, JArr (map (\<lambda>(b, p). JObj
          [(''bill_id'', JInt (b_bill_id b)),
           (''patient_id'', case b_patient_id b of None \<Rightarrow> JNull | Some n \<Rightarrow> JInt n),
           (''patient_name'', case p_name p of None \<Rightarrow> JNull | Some s \<Rightarrow> JStr s),
           (''treatment_id'',
              case b_treatment_id b of None \<Rightarrow> JNull | Some n \<Rightarrow> JInt n),
           (''amount'',
              case b_amount b of None \<Rightarrow> JNull | Some m \<Rightarrow> JFloat (dec_float E m)),
           (''payment_status'',
              case b_payment_status b of None \<Rightarrow> JNull | Some s \<Rightarrow> JStr s),
           (''billing_date'',
              JStr (case b_billing_date b of None \<Rightarrow> ''None''
                    | Some x \<Rightarrow> date_str E x))])
         ?rows)),
       w\<lparr>scope_identity := None, trace := trace w @ [Select]\<rparr>)"
    unfolding billing_json .
  have 2: "mset ?rows =
      mset [(b, p). b \<leftarrow> billing w, p \<leftarrow> patients w,
              b_patient_id b = Some (p_patient_id p)
              \<and> bill_matches E pid (supplied (args ''status'')) (b, p)]"
    unfolding mset_order_desc bill_join_rows ..
  have 3: "sorted_wrt
      (\<lambda>(b, _) (b', _).
         newest_first (b_billing_date b, b_bill_id b) (b_billing_date b', b_bill_id b'))
      ?rows"
    using sorted_order_desc [of bill_key] unfolding bill_order .
  from 1 2 3 show "\<exists>rows.
      get_billing E args w =
        ((200, JArr (map (\<lambda>(b, p). JObj
            [(''bill_id'', JInt (b_bill_id b)),
             (''patient_id'', case b_patient_id b of None \<Rightarrow> JNull | Some n \<Rightarrow> JInt n),
             (''patient_name'', case p_name p of None \<Rightarrow> JNull | Some s \<Rightarrow> JStr s),
             (''treatment_id'',
                case b_treatment_id b of None \<Rightarrow> JNull | Some n \<Rightarrow> JInt n),
             (''amount'',
                case b_amount b of None \<Rightarrow> JNull | Some m \<Rightarrow> JFloat (dec_float E m)),
             (''payment_status'',
                case b_payment_status b of None \<Rightarrow> JNull | Some s \<Rightarrow> JStr s),
             (''billing_date'',
                JStr (case b_billing_date b of None \<Rightarrow> ''None''
                      | Some x \<Rightarrow> date_str E x))])
           rows)),
         w\<lparr>scope_identity := None, trace := trace w @ [Select]\<rparr>)
      \<and> mset rows =
          mset [(b, p). b \<leftarrow> billing w, p \<leftarrow> patients w,
                  b_patient_id b = Some (p_patient_id p)
                  \<and> bill_matches E pid (supplied (args ''status'')) (b, p)]
      \<and> sorted_wrt
           (\<lambda>(b, _) (b', _).
              newest_first (b_billing_date b, b_bill_id b) (b_billing_date b', b_bill_id b'))
           rows"
    by blast
qed

theorem list_endpoints_filtered_sorted_witness:
  "int_filter_value ([''patient_id'' \<mapsto> ''1''] ''patient_id'') (Some 1)
   \<and> fst (fst (get_appointments demo_env [''patient_id'' \<mapsto> ''1''] demo_clinic)) = 200
   \<and> get_appointments demo_env [''patient_id'' \<mapsto> ''1''] demo_clinic =
       ((200, JArr
          [JObj [(''appointment_id'', JInt 12), (''appointment_date'', JStr ''IIIII''),
                 (''reason'', JNull), (''patient_id'', JInt 1), (''patient_name'', JStr ''Ann''),
                 (''doctor_id'', JInt 3), (''doctor_name'', JStr ''Dee'')],
           JObj [(''appointment_id'', JInt 10), (''appointment_date'', JStr ''IIIII''),
                 (''reason'', JStr ''Check-up''), (''patient_id'', JInt 1),
                 (''patient_name'', JStr ''Ann''), (''doctor_id'', JInt 2),
                 (''doctor_name'', JStr ''Bob'')],
           JObj [(''appointment_id'', JInt 13), (''appointment_date'', JStr ''None''),
                 (''reason'', JStr ''Scan''), (''patient_id'', JInt 1),
                 (''patient_name'', JStr ''Ann''), (''doctor_id'', JInt 2),
                 (''doctor_name'', JStr ''Bob'')]]),
        demo_clinic\<lparr>trace := [Select]\<rparr>)
   \<and> date_filter_value demo_env ([''from'' \<mapsto> ''5'', ''to'' \<mapsto> ''8''] ''from'') (Some 5)
   \<and> date_filter_value demo_env ([''from'' \<mapsto> ''5'', ''to'' \<mapsto> ''8''] ''to'') (Some 8)
   \<and> get_appointments demo_env [''from'' \<mapsto> ''5'', ''to'' \<mapsto> ''8''] demo_clinic =
       ((200, JArr
          [JObj [(''appointment_id'', JInt 12), (''appointment_date'', JStr ''IIIII''),
                 (''reason'', JNull), (''patient_id'', JInt 1), (''patient_name'', JStr ''Ann''),
                 (''doctor_id'', JInt 3), (''doctor_name'', JStr ''Dee'')],
           JObj [(''appointment_id'', JInt 10), (''appointment_date'', JStr ''IIIII''),
                 (''reason'', JStr ''Check-up''), (''patient_id'', JInt 1),
                 (''patient_name'', JStr ''Ann''), (''doctor_id'', JInt 2),
                 (''doctor_name'', JStr ''Bob'')]]),
        demo_clinic\<lparr>trace := [Select]\<rparr>)
   \<and> int_filter_value ([''appointment_id'' \<mapsto> ''10''] ''appointment_id'') (Some 10)
   \<and> get_treatments demo_env [''appointment_id'' \<mapsto> ''10''] demo_clinic =
       ((200, JArr
          [JObj [(''treatment_id'', JInt 8), (''appointment_id'', JInt 10),
                 (''diagnosis'', JNull), (''prescription'', JStr ''Rest''), (''notes'', JNull)],
           JObj [(''treatment_id'', JInt 7), (''appointment_id'', JInt 10),
                 (''diagnosis'', JStr ''Flu''), (''prescription'', JNull), (''notes'', JNull)]]),
        demo_clinic\<lparr>trace := [Select]\<rparr>)
   \<and> get_billing demo_env [''patient_id'' \<mapsto> ''1'', ''status'' \<mapsto> ''Paid''] demo_clinic =
       ((200, JArr
          [JObj [(''bill_id'', JInt 3), (''patient_id'', JInt 1), (''patient_name'', JStr ''Ann''),
                 (''treatment_id'', JInt 7), (''amount'', JFloat 120),
                 (''payment_status'', JStr ''Paid''), (''billing_date'', JStr ''IIIIII'')]]),
        demo_clinic\<lparr>trace := [Select]\<rparr>)
   \<and> int_filter_value (Map.empty ''patient_id'') None
   \<and> get_billing demo_env Map.empty demo_clinic =
       ((200, JArr
          [JObj [(''bill_id'', JInt 5), (''patient_id'', JInt 2), (''patient_name'', JStr ''Cy''),
                 (''treatment_id'', JInt 9), (''amount'', JFloat 50),
                 (''payment_status'', JStr ''Paid''), (''billing_date'', JStr ''IIIIIIII'')],
           JObj [(''bill_id'', JInt 4), (''patient_id'', JInt 1), (''patient_name'', JStr ''Ann''),
                 (''treatment_id'', JNull), (''amount'', JNull),
                 (''payment_status'', JStr ''Due''), (''billing_date'', JStr ''IIIIII'')],
           JObj [(''bill_id'', JInt 3), (''patient_id'', JInt 1), (''patient_name'', JStr ''Ann''),
                 (''treatment_id'', JInt 7), (''amount'', JFloat 120),
                 (''payment_status'', JStr ''Paid''), (''billing_date'', JStr ''IIIIII'')]]),
        demo_clinic\<lparr>trace := [Select]\<rparr>)"
proof -
  let ?a = "[''patient_id'' \<mapsto> ''1''] :: args"
  let ?d = "[''from'' \<mapsto> ''5'', ''to'' \<mapsto> ''8''] :: args"
  let ?t = "[''appointment_id'' \<mapsto> ''10''] :: args"
  let ?b = "[''patient_id'' \<mapsto> ''1'', ''status'' \<mapsto> ''Paid''] :: args"
  have lit: "int_literal ''1'' = Some 1" "int_literal ''5'' = Some 5"
      "int_literal ''8'' = Some 8" "int_literal ''10'' = Some 10"
    by (simp_all add: int_literal_def py_strip_def py_isspace_def unsigned_literal_def
          digit_of_def)
  have env: "date_of demo_env (JStr ''5'') = Some 5" "date_of demo_env (JStr ''8'') = Some 8"
      "text_eq demo_env = (=)" "dec_float demo_env = (\<lambda>m. m)"
      "date_str demo_env 5 = ''IIIII''" "date_str demo_env 6 = ''IIIIII''"
      "date_str demo_env 8 = ''IIIIIIII''"
    by (simp_all add: demo_env_def lit eval_nat_numeral)
  have h1: "int_filter_value (?a ''patient_id'') (Some 1)"
    by (simp add: int_filter_value_def supplied_def lit)
  have h2: "int_filter_value (?a ''doctor_id'') None"
    by (simp add: int_filter_value_def supplied_def)
  have h3: "date_filter_value demo_env (?a ''from'') None"
      "date_filter_value demo_env (?a ''to'') None"
    by (simp_all add: date_filter_value_def supplied_def)
  have h4: "date_filter_value demo_env (?d ''from'') (Some 5)"
      "date_filter_value demo_env (?d ''to'') (Some 8)"
    by (simp_all add: date_filter_value_def supplied_def env)
  have h5: "int_filter_value (?t ''appointment_id'') (Some 10)"
    by (simp add: int_filter_value_def supplied_def lit)
  have h6: "int_filter_value (Map.empty ''patient_id'') None"
    by (simp add: int_filter_value_def supplied_def)
  from list_endpoints_filtered_sorted [of ?a "Some 1" None demo_env None None demo_clinic,
      THEN conjunct1, THEN mp, OF conjI [OF h1 conjI [OF h2 conjI [OF h3]]]]
  have 1: "fst (fst (get_appointments demo_env ?a demo_clinic)) = 200"
    by (elim exE conjE) simp
  have 2: "get_appointments demo_env ?a demo_clinic =
       ((200, JArr
          [JObj [(''appointment_id'', JInt 12), (''appointment_date'', JStr ''IIIII''),
                 (''reason'', JNull), (''patient_id'', JInt 1), (''patient_name'', JStr ''Ann''),
                 (''doctor_id'', JInt 3), (''doctor_name'', JStr ''Dee'')],
           JObj [(''appointment_id'', JInt 10), (''appointment_date'', JStr ''IIIII''),
                 (''reason'', JStr ''Check-up''), (''patient_id'', JInt 1),
                 (''patient_name'', JStr ''Ann''), (''doctor_id'', JInt 2),
                 (''doctor_name'', JStr ''Bob'')],
           JObj [(''appointment_id'', JInt 13), (''appointment_date'', JStr ''None''),
                 (''reason'', JStr ''Scan''), (''patient_id'', JInt 1),
                 (''patient_name'', JStr ''Ann''), (''doctor_id'', JInt 2),
                 (''doctor_name'', JStr ''Bob'')]]),
        demo_clinic\<lparr>trace := [Select]\<rparr>)"
    by (simp add: get_appointments_def act_defs int_filter_def str_filter_def lit env
          select_appointments_def key_eq_def bind_key_def appt_join_def order_desc_def
          appt_key_def appt_select_def appointment_row_to_json_def jtext_def py_str_def
          demo_clinic_def)
  have 3: "get_appointments demo_env ?d demo_clinic =
       ((200, JArr
          [JObj [(''appointment_id'', JInt 12), (''appointment_date'', JStr ''IIIII''),
                 (''reason'', JNull), (''patient_id'', JInt 1), (''patient_name'', JStr ''Ann''),
                 (''doctor_id'', JInt 3), (''doctor_name'', JStr ''Dee'')],
           JObj [(''appointment_id'', JInt 10), (''appointment_date'', JStr ''IIIII''),
                 (''reason'', JStr ''Check-up''), (''patient_id'', JInt 1),
                 (''patient_name'', JStr ''Ann''), (''doctor_id'', JInt 2),
                 (''doctor_name'', JStr ''Bob'')]]),
        demo_clinic\<lparr>trace := [Select]\<rparr>)"
    by (simp add: get_appointments_def act_defs int_filter_def str_filter_def lit env
          select_appointments_def date_ge_def date_le_def bind_date_def appt_join_def
          order_desc_def appt_key_def appt_select_def appointment_row_to_json_def jtext_def
          py_str_def demo_clinic_def)
  have 4: "get_treatments demo_env ?t demo_clinic =
       ((200, JArr
          [JObj [(''treatment_id'', JInt 8), (''appointment_id'', JInt 10),
                 (''diagnosis'', JNull), (''prescription'', JStr ''Rest''), (''notes'', JNull)],
           JObj [(''treatment_id'', JInt 7), (''appointment_id'', JInt 10),
                 (''diagnosis'', JStr ''Flu''), (''prescription'', JNull), (''notes'', JNull)]]),
        demo_clinic\<lparr>trace := [Select]\<rparr>)"
    by (simp add: get_treatments_def act_defs int_filter_def lit select_treatments_def
          key_eq_def bind_key_def order_desc_def treatment_row_to_json_def jtext_def jint_def
          demo_clinic_def)
  have 5: "get_billing demo_env ?b demo_clinic =
       ((200, JArr
          [JObj [(''bill_id'', JInt 3), (''patient_id'', JInt 1), (''patient_name'', JStr ''Ann''),
                 (''treatment_id'', JInt 7), (''amount'', JFloat 120),
                 (''payment_status'', JStr ''Paid''), (''billing_date'', JStr ''IIIIII'')]]),
        demo_clinic\<lparr>trace := [Select]\<rparr>)"
    by (simp add: get_billing_def act_defs int_filter_def str_filter_def lit env
          select_billing_def key_eq_def bind_key_def text_eq_pred_def bind_text_def
          bill_join_def order_desc_def bill_key_def billing_row_to_json_def jtext_def jint_def
          py_str_def demo_clinic_def)
  have 6: "get_billing demo_env Map.empty demo_clinic =
       ((200, JArr
          [JObj [(''bill_id'', JInt 5), (''patient_id'', JInt 2), (''patient_name'', JStr ''Cy''),
                 (''treatment_id'', JInt 9), (''amount'', JFloat 50),
                 (''payment_status'', JStr ''Paid''), (''billing_date'', JStr ''IIIIIIII'')],
           JObj [(''bill_id'', JInt 4), (''patient_id'', JInt 1), (''patient_name'', JStr ''Ann''),
                 (''treatment_id'', JNull), (''amount'', JNull),
                 (''payment_status'', JStr ''Due''), (''billing_date'', JStr ''IIIIII'')],
           JObj [(''bill_id'', JInt 3), (''patient_id'', JInt 1), (''patient_name'', JStr ''Ann''),
                 (''treatment_id'', JInt 7), (''amount'', JFloat 120),
                 (''payment_status'', JStr ''Paid''), (''billing_date'', JStr ''IIIIII'')]]),
        demo_clinic\<lparr>trace := [Select]\<rparr>)"
    by (simp add: get_billing_def act_defs int_filter_def str_filter_def env
          select_billing_def bill_join_def order_desc_def bill_key_def billing_row_to_json_def
          jtext_def jint_def py_str_def demo_clinic_def)
  from h1 1 2 h4 3 h5 4 5 h6 6 show ?thesis by blast
qed

end
